theory Spec2Isabelle
  imports Main "HOL-Library.Sublist" "HOL-Library.AList" "HOL-Library.Word"
begin

section \<open>Python strings\<close>

text \<open>
  Python text is modelled by HOL strings, so a character is a code point below 256.
  The two emoji of the feedback texts of \<open>evaluate_responses\<close> lie outside that range
  and are kept as the UTF-8 bytes the source file holds for them.
\<close>

text \<open>\<open>str(i)\<close> for a non-negative integer: its decimal digits.\<close>

definition digit_char :: "nat \<Rightarrow> char" where
  "digit_char d = char_of (48 + d)"

fun str_nat :: "nat \<Rightarrow> string" where
  "str_nat n = (if n < 10 then [digit_char n] else str_nat (n div 10) @ [digit_char (n mod 10)])"

declare str_nat.simps [simp del]

text \<open>\<open>str(i)\<close> for any integer.\<close>

definition str_int :: "int \<Rightarrow> string" where
  "str_int i = (if i < 0 then CHR ''-'' # str_nat (nat (- i)) else str_nat (nat i))"

text \<open>
  \<open>str.strip()\<close> without argument removes leading and trailing white space. Below 256
  the characters Python counts as white space are 9..13, 28..32, 133 and 160.
\<close>

definition py_isspace :: "char \<Rightarrow> bool" where
  "py_isspace c =
     (let n = (of_char c :: nat)
      in (9 \<le> n \<and> n \<le> 13) \<or> (28 \<le> n \<and> n \<le> 32) \<or> n = 133 \<or> n = 160)"

definition py_strip :: "string \<Rightarrow> string" where
  "py_strip s = rev (dropWhile py_isspace (rev (dropWhile py_isspace s)))"

text \<open>
  \<open>str.replace(old, new)\<close>: every non-overlapping occurrence of \<open>old\<close>, found from the
  left, becomes \<open>new\<close>. The counter is the number of characters of a match still to
  skip. An empty \<open>old\<close> matches before every character and at the end.
\<close>

fun replace_from :: "string \<Rightarrow> string \<Rightarrow> nat \<Rightarrow> string \<Rightarrow> string" where
  "replace_from old new k [] = []"
| "replace_from old new (Suc k) (c # cs) = replace_from old new k cs"
| "replace_from old new 0 (c # cs) =
     (if prefix old (c # cs) then new @ replace_from old new (length old - 1) cs
      else c # replace_from old new 0 cs)"

definition py_replace :: "string \<Rightarrow> string \<Rightarrow> string \<Rightarrow> string" where
  "py_replace old new s =
     (if old = [] then new @ concat (map (\<lambda>c. c # new) s)
      else replace_from old new 0 s)"

section \<open>JSON values and the \<open>json\<close> module\<close>

text \<open>
  The values the session state and the data file hold: what \<open>json.loads\<close> returns and
  \<open>json.dump\<close> accepts. A dictionary is the list of its items in insertion order. A float
  is kept as its literal, since floating point is not modelled.
\<close>

datatype json =
    JNull
  | JBool bool
  | JInt int
  | JFloat string
  | JStr string
  | JArr "json list"
  | JObj "(string \<times> json) list"

text \<open>The double quote and the backslash.\<close>

abbreviation dquote :: char where "dquote \<equiv> CHR 0x22"
abbreviation bslash :: char where "bslash \<equiv> CHR 0x5C"

subsection \<open>\<open>json.dump\<close> with its default options\<close>

definition hex_digit :: "nat \<Rightarrow> char" where
  "hex_digit d = (if d < 10 then char_of (48 + d) else char_of (87 + d))"

text \<open>
  \<open>ensure_ascii\<close> is on: the quote and the backslash are escaped, five control characters
  have short escapes, and every other character outside \<open>' '..'~'\<close> is written
  \<open>\u00XX\<close> in lower-case hexadecimal.
\<close>

definition escape_char :: "char \<Rightarrow> string" where
  "escape_char c =
     (if c = dquote then [bslash, dquote]
      else if c = bslash then [bslash, bslash]
      else if c = CHR 0x0A then [bslash, CHR ''n'']
      else if c = CHR 0x0D then [bslash, CHR ''r'']
      else if c = CHR 0x09 then [bslash, CHR ''t'']
      else if c = CHR 0x08 then [bslash, CHR ''b'']
      else if c = CHR 0x0C then [bslash, CHR ''f'']
      else if 32 \<le> (of_char c :: nat) \<and> (of_char c :: nat) \<le> 126 then [c]
      else [bslash, CHR ''u'', CHR ''0'', CHR ''0'',
            hex_digit ((of_char c :: nat) div 16), hex_digit ((of_char c :: nat) mod 16)])"

definition encode_string :: "string \<Rightarrow> string" where
  "encode_string s = dquote # concat (map escape_char s) @ [dquote]"

text \<open>
  Lists and dictionaries are written with the separators \<open>", "\<close> and \<open>": "\<close>; the
  empty ones as \<open>[]\<close> and \<open>{}\<close>.
\<close>

fun dumps :: "json \<Rightarrow> string"
  and dumps_items :: "json list \<Rightarrow> string"
  and dumps_members :: "(string \<times> json) list \<Rightarrow> string" where
  "dumps JNull = ''null''"
| "dumps (JBool b) = (if b then ''true'' else ''false'')"
| "dumps (JInt i) = str_int i"
| "dumps (JFloat r) = r"
| "dumps (JStr s) = encode_string s"
| "dumps (JArr xs) = (if xs = [] then ''[]'' else CHR ''['' # dumps_items xs @ '']'')"
| "dumps (JObj kvs) = (if kvs = [] then ''{}'' else CHR ''{'' # dumps_members kvs @ ''}'')"
| "dumps_items [] = []"
| "dumps_items (x # xs) = (if xs = [] then dumps x else dumps x @ '', '' @ dumps_items xs)"
| "dumps_members [] = []"
| "dumps_members (kv # kvs) =
     (if kvs = [] then encode_string (fst kv) @ '': '' @ dumps (snd kv)
      else encode_string (fst kv) @ '': '' @ dumps (snd kv) @ '', '' @ dumps_members kvs)"

subsection \<open>\<open>json.loads\<close>\<close>

text \<open>
  The decoder's outcome besides a value: \<open>JSONDecodeError\<close> is the exception Python
  raises; \<open>BeyondLatin1\<close> marks a \<open>\uXXXX\<close> escape of a code point from 256 on, which
  the strings of this model cannot hold; \<open>FuelSpent\<close> is the recursion bound running out,
  which \<open>json_loads\<close> never reports.
\<close>

datatype decode_error = JSONDecodeError | BeyondLatin1 | FuelSpent

definition is_ws :: "char \<Rightarrow> bool" where
  "is_ws c = (c = CHR '' '' \<or> c = CHR 0x09 \<or> c = CHR 0x0A \<or> c = CHR 0x0D)"

definition skip_ws :: "string \<Rightarrow> string" where
  "skip_ws = dropWhile is_ws"

definition is_digit :: "char \<Rightarrow> bool" where
  "is_digit c = (48 \<le> (of_char c :: nat) \<and> (of_char c :: nat) \<le> 57)"

definition hex_value :: "char \<Rightarrow> nat option" where
  "hex_value c =
     (let n = (of_char c :: nat)
      in if 48 \<le> n \<and> n \<le> 57 then Some (n - 48)
         else if 97 \<le> n \<and> n \<le> 102 then Some (n - 87)
         else if 65 \<le> n \<and> n \<le> 70 then Some (n - 55)
         else None)"

definition hex4 :: "char \<Rightarrow> char \<Rightarrow> char \<Rightarrow> char \<Rightarrow> nat option" where
  "hex4 a b c d =
     (case (hex_value a, hex_value b, hex_value c, hex_value d) of
        (Some w, Some x, Some y, Some z) \<Rightarrow> Some (((w * 16 + x) * 16 + y) * 16 + z)
      | _ \<Rightarrow> None)"

text \<open>The character a backslash escape other than \<open>\u\<close> stands for.\<close>

definition unescape :: "char \<Rightarrow> char option" where
  "unescape e =
     (if e = dquote then Some dquote
      else if e = bslash then Some bslash
      else if e = CHR ''/'' then Some CHR ''/''
      else if e = CHR ''b'' then Some (CHR 0x08)
      else if e = CHR ''f'' then Some (CHR 0x0C)
      else if e = CHR ''n'' then Some (CHR 0x0A)
      else if e = CHR ''r'' then Some (CHR 0x0D)
      else if e = CHR ''t'' then Some (CHR 0x09)
      else None)"

definition push_char :: "char \<Rightarrow> decode_error + (string \<times> string) \<Rightarrow> decode_error + (string \<times> string)" where
  "push_char c r = (case r of Inl e \<Rightarrow> Inl e | Inr (s, rest) \<Rightarrow> Inr (c # s, rest))"

text \<open>
  \<open>scanstring\<close>, strict: the text after an opening quote, up to the closing one. A
  control character below 32 inside a string is an error.
\<close>

fun scan_string :: "string \<Rightarrow> decode_error + (string \<times> string)" where
  "scan_string [] = Inl JSONDecodeError"
| "scan_string (c # cs) =
     (if c = dquote then Inr ([], cs)
      else if c = bslash then
        (case cs of
           [] \<Rightarrow> Inl JSONDecodeError
         | e # cs1 \<Rightarrow>
             if e = CHR ''u'' then
               (case cs1 of
                  h1 # h2 # h3 # h4 # cs2 \<Rightarrow>
                    (case hex4 h1 h2 h3 h4 of
                       None \<Rightarrow> Inl JSONDecodeError
                     | Some n \<Rightarrow>
                         if n < 256 then push_char (char_of n) (scan_string cs2)
                         else Inl BeyondLatin1)
                | _ \<Rightarrow> Inl JSONDecodeError)
             else
               (case unescape e of
                  None \<Rightarrow> Inl JSONDecodeError
                | Some c' \<Rightarrow> push_char c' (scan_string cs1)))
      else if (of_char c :: nat) < 32 then Inl JSONDecodeError
      else push_char c (scan_string cs))"

text \<open>\<open>int(digits)\<close> for a string of decimal digits.\<close>

definition nat_of_digits :: "string \<Rightarrow> nat" where
  "nat_of_digits ds = foldl (\<lambda>acc c. 10 * acc + ((of_char c :: nat) - 48)) 0 ds"

text \<open>
  The number pattern \<open>(-?(?:0|[1-9][0-9]*))(\.[0-9]+)?([eE][-+]?[0-9]+)?\<close>, matched at the
  start of the text. Without fraction and exponent the literal is an \<open>int\<close>.
\<close>

definition scan_int_part :: "string \<Rightarrow> (string \<times> string) option" where
  "scan_int_part cs =
     (case cs of
        [] \<Rightarrow> None
      | d # r \<Rightarrow>
          if \<not> is_digit d then None
          else if d = CHR ''0'' then Some ([d], r)
          else Some (d # takeWhile is_digit r, dropWhile is_digit r))"

definition scan_frac :: "string \<Rightarrow> string \<times> string" where
  "scan_frac cs =
     (case cs of
        [] \<Rightarrow> ([], cs)
      | p # r \<Rightarrow>
          if p = CHR ''.'' \<and> takeWhile is_digit r \<noteq> []
          then (p # takeWhile is_digit r, dropWhile is_digit r)
          else ([], cs))"

definition scan_exp :: "string \<Rightarrow> string \<times> string" where
  "scan_exp cs =
     (case cs of
        [] \<Rightarrow> ([], cs)
      | e # r \<Rightarrow>
          if e = CHR ''e'' \<or> e = CHR ''E'' then
            (let sg = (case r of [] \<Rightarrow> [] | s # _ \<Rightarrow> if s = CHR ''+'' \<or> s = CHR ''-'' then [s] else []);
                 r1 = drop (length sg) r
             in if takeWhile is_digit r1 \<noteq> []
                then (e # sg @ takeWhile is_digit r1, dropWhile is_digit r1)
                else ([], cs))
          else ([], cs))"

definition scan_number :: "string \<Rightarrow> (json \<times> string) option" where
  "scan_number cs =
     (let neg = (case cs of [] \<Rightarrow> False | c # _ \<Rightarrow> c = CHR ''-'');
          cs0 = (if neg then tl cs else cs)
      in case scan_int_part cs0 of
           None \<Rightarrow> None
         | Some (ip, cs1) \<Rightarrow>
             (let (frac, cs2) = scan_frac cs1;
                  (ex, cs3) = scan_exp cs2
              in if frac = [] \<and> ex = []
                 then Some (JInt (if neg then - int (nat_of_digits ip) else int (nat_of_digits ip)), cs3)
                 else Some (JFloat ((if neg then ''-'' else []) @ ip @ frac @ ex), cs3)))"

text \<open>\<open>dict(pairs)\<close>: a later item with a key already present replaces the value in place.\<close>

definition dict_of :: "(string \<times> json) list \<Rightarrow> (string \<times> json) list" where
  "dict_of pairs = foldl (\<lambda>d kv. AList.update (fst kv) (snd kv) d) [] pairs"

text \<open>
  \<open>scan_once\<close> with \<open>JSONArray\<close> and \<open>JSONObject\<close>. The first argument bounds the depth
  of the recursion; \<open>parse_items\<close> starts at the first value of a non-empty list,
  \<open>parse_members\<close> at the quote that opens a key.
\<close>

fun parse_value :: "nat \<Rightarrow> string \<Rightarrow> decode_error + (json \<times> string)"
  and parse_items :: "nat \<Rightarrow> string \<Rightarrow> decode_error + (json list \<times> string)"
  and parse_members :: "nat \<Rightarrow> string \<Rightarrow> decode_error + ((string \<times> json) list \<times> string)" where
  "parse_value 0 cs = Inl FuelSpent"
| "parse_value (Suc n) cs =
     (case cs of
        [] \<Rightarrow> Inl JSONDecodeError
      | c # r \<Rightarrow>
          if c = dquote then
            (case scan_string r of Inl e \<Rightarrow> Inl e | Inr (s, r1) \<Rightarrow> Inr (JStr s, r1))
          else if c = CHR ''{'' then
            (case skip_ws r of
               [] \<Rightarrow> Inl JSONDecodeError
             | d # r1 \<Rightarrow>
                 if d = CHR ''}'' then Inr (JObj [], r1)
                 else if d = dquote then
                   (case parse_members n (d # r1) of
                      Inl e \<Rightarrow> Inl e
                    | Inr (kvs, r2) \<Rightarrow> Inr (JObj (dict_of kvs), r2))
                 else Inl JSONDecodeError)
          else if c = CHR ''['' then
            (case skip_ws r of
               [] \<Rightarrow> Inl JSONDecodeError
             | d # r1 \<Rightarrow>
                 if d = CHR '']'' then Inr (JArr [], r1)
                 else
                   (case parse_items n (d # r1) of
                      Inl e \<Rightarrow> Inl e
                    | Inr (vs, r2) \<Rightarrow> Inr (JArr vs, r2)))
          else if prefix ''null'' cs then Inr (JNull, drop 4 cs)
          else if prefix ''true'' cs then Inr (JBool True, drop 4 cs)
          else if prefix ''false'' cs then Inr (JBool False, drop 5 cs)
          else
            (case scan_number cs of
               Some res \<Rightarrow> Inr res
             | None \<Rightarrow>
                 if prefix ''NaN'' cs then Inr (JFloat ''NaN'', drop 3 cs)
                 else if prefix ''Infinity'' cs then Inr (JFloat ''Infinity'', drop 8 cs)
                 else if prefix ''-Infinity'' cs then Inr (JFloat ''-Infinity'', drop 9 cs)
                 else Inl JSONDecodeError))"
| "parse_items 0 cs = Inl FuelSpent"
| "parse_items (Suc n) cs =
     (case parse_value n cs of
        Inl e \<Rightarrow> Inl e
      | Inr (v, r) \<Rightarrow>
          (case skip_ws r of
             [] \<Rightarrow> Inl JSONDecodeError
           | d # r1 \<Rightarrow>
               if d = CHR '']'' then Inr ([v], r1)
               else if d = CHR '','' then
                 (case parse_items n (skip_ws r1) of
                    Inl e \<Rightarrow> Inl e
                  | Inr (vs, r2) \<Rightarrow> Inr (v # vs, r2))
               else Inl JSONDecodeError))"
| "parse_members 0 cs = Inl FuelSpent"
| "parse_members (Suc n) cs =
     (case cs of
        [] \<Rightarrow> Inl JSONDecodeError
      | q # r \<Rightarrow>
          if q \<noteq> dquote then Inl JSONDecodeError
          else
            (case scan_string r of
               Inl e \<Rightarrow> Inl e
             | Inr (k, r1) \<Rightarrow>
                 (case skip_ws r1 of
                    [] \<Rightarrow> Inl JSONDecodeError
                  | c # r2 \<Rightarrow>
                      if c \<noteq> CHR '':'' then Inl JSONDecodeError
                      else
                        (case parse_value n (skip_ws r2) of
                           Inl e \<Rightarrow> Inl e
                         | Inr (v, r3) \<Rightarrow>
                             (case skip_ws r3 of
                                [] \<Rightarrow> Inl JSONDecodeError
                              | d # r4 \<Rightarrow>
                                  if d = CHR ''}'' then Inr ([(k, v)], r4)
                                  else if d = CHR '','' then
                                    (case parse_members n (skip_ws r4) of
                                       Inl e \<Rightarrow> Inl e
                                     | Inr (kvs, r5) \<Rightarrow> Inr ((k, v) # kvs, r5))
                                  else Inl JSONDecodeError)))))"

text \<open>
  \<open>json.loads\<close>: white space, one value, white space, end of text. Anything left over
  is the error "Extra data".
\<close>

definition json_loads :: "string \<Rightarrow> decode_error + json" where
  "json_loads s =
     (case parse_value (Suc (length s)) (skip_ws s) of
        Inl e \<Rightarrow> Inl e
      | Inr (v, r) \<Rightarrow> if skip_ws r = [] then Inr v else Inl JSONDecodeError)"

section \<open>Operations of Python on these values\<close>

text \<open>
  The exceptions the handlers can meet. \<open>OutsideModel\<close> is not a Python exception: it
  marks a run that leaves the values this model can hold.
\<close>

datatype error =
    ValidationError
  | DecodeError
  | AttributeError
  | TypeError
  | KeyError
  | OutsideModel

text \<open>\<open>d.get(key, default)\<close> on a dictionary.\<close>

definition dict_get :: "(string \<times> json) list \<Rightarrow> string \<Rightarrow> json \<Rightarrow> json" where
  "dict_get d k dflt = (case map_of d k of None \<Rightarrow> dflt | Some v \<Rightarrow> v)"

text \<open>\<open>x[key]\<close> with a string key: a missing key raises, and only a dictionary takes one.\<close>

definition subscript :: "json \<Rightarrow> string \<Rightarrow> error + json" where
  "subscript x k =
     (case x of
        JObj d \<Rightarrow> (case map_of d k of None \<Rightarrow> Inl KeyError | Some v \<Rightarrow> Inr v)
      | _ \<Rightarrow> Inl TypeError)"

text \<open>\<open>x.append(v)\<close>: only a list has the method.\<close>

definition list_append :: "json \<Rightarrow> json \<Rightarrow> error + json" where
  "list_append x v = (case x of JArr xs \<Rightarrow> Inr (JArr (xs @ [v])) | _ \<Rightarrow> Inl AttributeError)"

text \<open>\<open>x[key] = v\<close> with a string key.\<close>

definition set_item :: "json \<Rightarrow> string \<Rightarrow> json \<Rightarrow> error + json" where
  "set_item x k v = (case x of JObj d \<Rightarrow> Inr (JObj (AList.update k v d)) | _ \<Rightarrow> Inl TypeError)"

text \<open>
  Whether an f-string that reads \<open>x[k]\<close> for each of the keys can be built: \<open>x\<close> is a
  dictionary and has them all.
\<close>

definition has_keys :: "json \<Rightarrow> string list \<Rightarrow> bool" where
  "has_keys x ks = (case x of JObj d \<Rightarrow> list_all (\<lambda>k. map_of d k \<noteq> None) ks | _ \<Rightarrow> False)"

section \<open>\<open>str(uuid.uuid4())\<close>\<close>

text \<open>
  \<open>uuid4\<close> draws 16 random bytes, which are an input here, and sets the variant and
  version bits; \<open>str\<close> writes the 128 bits as 32 lower-case hexadecimal digits in groups
  of 8, 4, 4, 4 and 12.
\<close>

unbundle bit_operations_syntax

definition uuid4 :: "128 word \<Rightarrow> 128 word" where
  "uuid4 random =
     (((random AND NOT (push_bit 48 0xc000)) OR push_bit 48 0x8000)
        AND NOT (push_bit 64 0xf000)) OR push_bit 76 4"

fun hex_digits :: "nat \<Rightarrow> nat \<Rightarrow> string" where
  "hex_digits 0 n = []"
| "hex_digits (Suc k) n = hex_digits k (n div 16) @ [hex_digit (n mod 16)]"

definition hex32 :: "nat \<Rightarrow> string" where
  "hex32 n = hex_digits 32 n"

definition uuid_str :: "128 word \<Rightarrow> string" where
  "uuid_str u =
     (let h = hex32 (unat u)
      in take 8 h @ ''-'' @ take 4 (drop 8 h) @ ''-'' @ take 4 (drop 12 h) @ ''-'' @
         take 4 (drop 16 h) @ ''-'' @ drop 20 h)"

definition new_id :: "128 word \<Rightarrow> string" where
  "new_id random = uuid_str (uuid4 random)"

section \<open>The record store\<close>

text \<open>
  \<open>st.session_state\<close> with its four collections, and the file
  \<open>patient_education_data.json\<close>: its text, or \<open>None\<close> while it does not exist. The
  collections are whatever values the session holds, as in Python: \<open>load_data\<close> stores
  what the file gives without looking at it.
\<close>

record world =
  patient_records :: json
  generated_materials :: json
  chat_history :: json
  patient_assessments :: json
  data_file :: "string option"

text \<open>The dictionary \<open>save_data\<close> builds and dumps.\<close>

definition document :: "world \<Rightarrow> json" where
  "document w =
     JObj [(''patients'', patient_records w),
           (''materials'', generated_materials w),
           (''chat_history'', chat_history w)]"

definition save_data :: "world \<Rightarrow> world" where
  "save_data w = w\<lparr>data_file := Some (dumps (document w))\<rparr>"

text \<open>
  \<open>load_data\<close> catches \<open>FileNotFoundError\<close> only. A text that is not JSON raises
  \<open>JSONDecodeError\<close> out of it, and a JSON value that is not a dictionary has no
  \<open>get\<close>; both leave the session as it was.
\<close>

definition load_data :: "world \<Rightarrow> (error + unit) \<times> world" where
  "load_data w =
     (case data_file w of
        None \<Rightarrow>
          (Inr (), w\<lparr>patient_records := JArr [], generated_materials := JArr [],
                     chat_history := JObj []\<rparr>)
      | Some text \<Rightarrow>
          (case json_loads text of
             Inl JSONDecodeError \<Rightarrow> (Inl DecodeError, w)
           | Inl _ \<Rightarrow> (Inl OutsideModel, w)
           | Inr (JObj d) \<Rightarrow>
               (Inr (), w\<lparr>patient_records := dict_get d ''patients'' (JArr []),
                          generated_materials := dict_get d ''materials'' (JArr []),
                          chat_history := dict_get d ''chat_history'' (JObj [])\<rparr>)
           | Inr _ \<Rightarrow> (Inl AttributeError, w)))"

subsection \<open>Add Patient\<close>

text \<open>The fields of the form \<open>patient_form\<close>.\<close>

record intake =
  name :: string
  age :: int
  gender :: string
  education_level :: string
  language :: string
  condition :: string
  treatment :: string
  medications :: string
  learning_style :: string
  special_needs :: string

definition patient_dict :: "string \<Rightarrow> string \<Rightarrow> intake \<Rightarrow> json" where
  "patient_dict patient_id now f =
     JObj [(''id'', JStr patient_id),
           (''name'', JStr (name f)),
           (''age'', JInt (age f)),
           (''gender'', JStr (gender f)),
           (''education_level'', JStr (education_level f)),
           (''language'', JStr (language f)),
           (''condition'', JStr (condition f)),
           (''treatment'', JStr (treatment f)),
           (''medications'', JStr (medications f)),
           (''learning_style'', JStr (learning_style f)),
           (''special_needs'', JStr (special_needs f)),
           (''date_added'', JStr now)]"

text \<open>
  The handler of the submit button. \<open>random\<close> is what \<open>uuid4\<close> draws and \<open>now\<close> the
  formatted clock, both taken from outside. An exception leaves what was changed before
  it.
\<close>

definition create_patient :: "128 word \<Rightarrow> string \<Rightarrow> intake \<Rightarrow> world \<Rightarrow> (error + json) \<times> world" where
  "create_patient random now f w =
     (if name f \<noteq> [] \<and> condition f \<noteq> [] then
        (let patient_id = new_id random;
             patient = patient_dict patient_id now f
         in case list_append (patient_records w) patient of
              Inl e \<Rightarrow> (Inl e, w)
            | Inr recs \<Rightarrow>
                (let w1 = w\<lparr>patient_records := recs\<rparr>
                 in case set_item (chat_history w1) patient_id (JArr []) of
                      Inl e \<Rightarrow> (Inl e, w1)
                    | Inr ch \<Rightarrow> (Inr patient, save_data (w1\<lparr>chat_history := ch\<rparr>))))
      else (Inl ValidationError, w))"

subsection \<open>Remote generation\<close>

text \<open>
  The answer of \<open>model.generate_content(prompt).text\<close> is an input: \<open>Some\<close> text, or
  \<open>None\<close> when the call raises. Every function below wraps its body in
  \<open>try ... except Exception\<close>, so a key its prompt reads and the patient lacks ends in
  the same branch as a failed call.
\<close>

definition education_keys :: "string list" where
  "education_keys = [''age'', ''gender'', ''education_level'', ''language'', ''condition'',
     ''treatment'', ''medications'', ''learning_style'', ''special_needs'']"

definition education_error_text :: string where
  "education_error_text =
     ''Error generating content. Please check your Gemini API key and try again.''"

definition material_dict :: "string \<Rightarrow> string \<Rightarrow> json \<Rightarrow> json \<Rightarrow> json \<Rightarrow> string \<Rightarrow> json" where
  "material_dict material_id now pid pname pcond content =
     JObj [(''id'', JStr material_id),
           (''patient_id'', pid),
           (''patient_name'', pname),
           (''condition'', pcond),
           (''content'', JStr content),
           (''timestamp'', JStr now)]"

definition generate_patient_education ::
  "128 word \<Rightarrow> string \<Rightarrow> json \<Rightarrow> string option \<Rightarrow> world \<Rightarrow> string \<times> world" where
  "generate_patient_education random now patient_info response w =
     (if \<not> has_keys patient_info education_keys then (education_error_text, w)
      else
        (case response of
           None \<Rightarrow> (education_error_text, w)
         | Some text \<Rightarrow>
             (case (subscript patient_info ''id'', subscript patient_info ''name'',
                    subscript patient_info ''condition'') of
                (Inr pid, Inr pname, Inr pcond) \<Rightarrow>
                  (case list_append (generated_materials w)
                          (material_dict (new_id random) now pid pname pcond text) of
                     Inl e \<Rightarrow> (education_error_text, w)
                   | Inr ms \<Rightarrow> (text, save_data (w\<lparr>generated_materials := ms\<rparr>)))
              | _ \<Rightarrow> (education_error_text, w))))"

definition chat_keys :: "string list" where
  "chat_keys = [''name'', ''age'', ''gender'', ''education_level'', ''language'', ''condition'',
     ''treatment'', ''medications'', ''learning_style'', ''special_needs'']"

definition chat_error_text :: string where
  "chat_error_text =
     ''I'' @ [CHR 0x27] @ ''m sorry, I'' @ [CHR 0x27] @ ''m having trouble connecting to my knowledge base. Please try again later or contact your healthcare provider for assistance.''"

definition chat_with_patient :: "json \<Rightarrow> string option \<Rightarrow> string" where
  "chat_with_patient patient_info response =
     (if \<not> has_keys patient_info chat_keys then chat_error_text
      else (case response of None \<Rightarrow> chat_error_text | Some text \<Rightarrow> text))"

definition assessment_keys :: "string list" where
  "assessment_keys = [''condition'', ''education_level'', ''learning_style'']"

text \<open>
  The cleaning of line 81, as the source has it: \<open>strip\<close>, every \<open>json\<close> removed, the
  empty string replaced by the empty string, \<open>strip\<close>.
\<close>

definition clean_response :: "string \<Rightarrow> string" where
  "clean_response text = py_strip (py_replace [] [] (py_replace ''json'' [] (py_strip text)))"

definition generation_failed :: json where
  "generation_failed = JObj [(''error'', JStr ''Failed to generate assessment'')]"

definition parse_failed :: "string \<Rightarrow> json" where
  "parse_failed cleaned =
     JObj [(''error'', JStr ''Failed to parse assessment''), (''raw_response'', JStr cleaned)]"

text \<open>
  \<open>generate_knowledge_assessment\<close> returns a dictionary in every case Python reaches:
  the parsed answer, or one of the two error dictionaries. \<open>None\<close> stands for an answer
  whose strings this model cannot hold.
\<close>

definition generate_knowledge_assessment :: "json \<Rightarrow> string option \<Rightarrow> json option" where
  "generate_knowledge_assessment patient_info response =
     (if \<not> has_keys patient_info assessment_keys then Some generation_failed
      else
        (case response of
           None \<Rightarrow> Some generation_failed
         | Some text \<Rightarrow>
             (case json_loads (clean_response text) of
                Inr assessment \<Rightarrow> Some assessment
              | Inl JSONDecodeError \<Rightarrow> Some (parse_failed (clean_response text))
              | Inl _ \<Rightarrow> None)))"

subsection \<open>Patient Chat\<close>

definition chat_message :: "string \<Rightarrow> string \<Rightarrow> string \<Rightarrow> json" where
  "chat_message role content now =
     JObj [(''role'', JStr role), (''content'', JStr content), (''timestamp'', JStr now)]"

text \<open>
  One run of the chat page for the selected patient with the Send button pressed: the
  history of the patient is created when absent; with a non-empty question the user's
  message is appended, then the reply of \<open>chat_with_patient\<close>, and the store is saved.
  The rendering between these steps is left out. \<open>now1\<close> and \<open>now2\<close> are the two
  readings of the clock.
\<close>

definition chat_send ::
  "string \<Rightarrow> string \<Rightarrow> json \<Rightarrow> string \<Rightarrow> string option \<Rightarrow> world \<Rightarrow> (error + unit) \<times> world" where
  "chat_send now1 now2 patient user_question response w =
     (case subscript patient ''id'' of
        Inl e \<Rightarrow> (Inl e, w)
      | Inr (JStr patient_id) \<Rightarrow>
          (case chat_history w of
             JObj d \<Rightarrow>
               (let d1 = (if map_of d patient_id = None then AList.update patient_id (JArr []) d else d);
                    w1 = w\<lparr>chat_history := JObj d1\<rparr>
                in if user_question = [] then (Inr (), w1)
                   else
                     (case list_append (dict_get d1 patient_id JNull)
                             (chat_message ''user'' user_question now1) of
                        Inl e \<Rightarrow> (Inl e, w1)
                      | Inr h1 \<Rightarrow>
                          (let bot_response = chat_with_patient patient response
                           in case list_append h1 (chat_message ''assistant'' bot_response now2) of
                                Inl e \<Rightarrow> (Inl e, w1\<lparr>chat_history := JObj (AList.update patient_id h1 d1)\<rparr>)
                              | Inr h2 \<Rightarrow>
                                  (Inr (), save_data (w1\<lparr>chat_history := JObj (AList.update patient_id h2 d1)\<rparr>)))))
           | _ \<Rightarrow> (Inl TypeError, w))
      | Inr _ \<Rightarrow> (Inl OutsideModel, w))"

text \<open>The button Clear Chat History of the same page.\<close>

definition clear_chat :: "string \<Rightarrow> world \<Rightarrow> (error + unit) \<times> world" where
  "clear_chat patient_id w =
     (case set_item (chat_history w) patient_id (JArr []) of
        Inl e \<Rightarrow> (Inl e, w)
      | Inr ch \<Rightarrow> (Inr (), save_data (w\<lparr>chat_history := ch\<rparr>)))"

subsection \<open>View Materials: the Delete button\<close>



subsection \<open>Knowledge Assessment: the Generate button\<close>

text \<open>\<open>"error" in x\<close>: a key of a dictionary, an element of a list, a part of a string.\<close>

definition contains_error :: "json \<Rightarrow> error + bool" where
  "contains_error x =
     (case x of
        JObj d \<Rightarrow> Inr (map_of d ''error'' \<noteq> None)
      | JArr xs \<Rightarrow> Inr (List.member xs (JStr ''error''))
      | JStr t \<Rightarrow> Inr (sublist ''error'' t)
      | _ \<Rightarrow> Inl TypeError)"

definition assessment_entry :: "json \<Rightarrow> json" where
  "assessment_entry assessment =
     JObj [(''assessment'', assessment), (''user_responses'', JObj []), (''results'', JNull)]"

definition generate_assessment_pressed ::
  "json \<Rightarrow> string option \<Rightarrow> world \<Rightarrow> (error + unit) \<times> world" where
  "generate_assessment_pressed patient response w =
     (case subscript patient ''id'' of
        Inl e \<Rightarrow> (Inl e, w)
      | Inr (JStr patient_id) \<Rightarrow>
          (case generate_knowledge_assessment patient response of
             None \<Rightarrow> (Inl OutsideModel, w)
           | Some assessment \<Rightarrow>
               (case contains_error assessment of
                  Inl e \<Rightarrow> (Inl e, w)
                | Inr True \<Rightarrow> (Inr (), w)
                | Inr False \<Rightarrow>
                    (case set_item (patient_assessments w) patient_id (assessment_entry assessment) of
                       Inl e \<Rightarrow> (Inl e, w)
                     | Inr pa \<Rightarrow> (Inr (), save_data (w\<lparr>patient_assessments := pa\<rparr>)))))
      | Inr _ \<Rightarrow> (Inl OutsideModel, w))"

section \<open>The assessment scorer: \<open>evaluate_responses\<close>\<close>

text \<open>
  Python's \<open>==\<close> on these values. \<open>None\<close> equals only \<open>None\<close>, a string only the same
  string; \<open>True\<close> and \<open>False\<close> are the integers 1 and 0; lists are compared by length and
  then element by element. A comparison of a float with a number, and of two
  dictionaries, is not modelled and gives no answer.
\<close>

fun py_eq :: "json \<Rightarrow> json \<Rightarrow> bool option"
  and py_eq_list :: "json list \<Rightarrow> json list \<Rightarrow> bool option" where
  "py_eq JNull y = Some (y = JNull)"
| "py_eq (JStr s) y = Some (y = JStr s)"
| "py_eq (JBool b) y =
     (case y of
        JBool c \<Rightarrow> Some (b = c)
      | JInt j \<Rightarrow> Some ((if b then 1 else 0) = j)
      | JFloat _ \<Rightarrow> None
      | _ \<Rightarrow> Some False)"
| "py_eq (JInt i) y =
     (case y of
        JInt j \<Rightarrow> Some (i = j)
      | JBool c \<Rightarrow> Some (i = (if c then 1 else 0))
      | JFloat _ \<Rightarrow> None
      | _ \<Rightarrow> Some False)"
| "py_eq (JFloat r) y =
     (case y of JInt _ \<Rightarrow> None | JBool _ \<Rightarrow> None | JFloat _ \<Rightarrow> None | _ \<Rightarrow> Some False)"
| "py_eq (JArr xs) y =
     (case y of
        JArr ys \<Rightarrow> if length xs \<noteq> length ys then Some False else py_eq_list xs ys
      | _ \<Rightarrow> Some False)"
| "py_eq (JObj a) y = (case y of JObj b \<Rightarrow> None | _ \<Rightarrow> Some False)"
| "py_eq_list [] ys = Some True"
| "py_eq_list (x # xs) ys =
     (case ys of
        [] \<Rightarrow> Some True
      | y # ys' \<Rightarrow>
          (case py_eq x y of
             None \<Rightarrow> None
           | Some False \<Rightarrow> Some False
           | Some True \<Rightarrow> py_eq_list xs ys'))"

text \<open>
  What an f-string writes for \<open>{x}\<close>. The text of a float, a list or a dictionary is not
  modelled.
\<close>

definition py_str :: "json \<Rightarrow> string option" where
  "py_str x =
     (case x of
        JStr s \<Rightarrow> Some s
      | JNull \<Rightarrow> Some ''None''
      | JBool b \<Rightarrow> Some (if b then ''True'' else ''False'')
      | JInt i \<Rightarrow> Some (str_int i)
      | _ \<Rightarrow> None)"

text \<open>
  \<open>len(x)\<close> and \<open>enumerate(x)\<close> on the value under \<open>"questions"\<close>: the elements of a
  list, the keys of a dictionary, the characters of a string.
\<close>

definition iter_items :: "json \<Rightarrow> error + json list" where
  "iter_items x =
     (case x of
        JArr xs \<Rightarrow> Inr xs
      | JObj d \<Rightarrow> Inr (map (\<lambda>kv. JStr (fst kv)) d)
      | JStr s \<Rightarrow> Inr (map (\<lambda>c. JStr [c]) s)
      | _ \<Rightarrow> Inl TypeError)"

text \<open>\<open>user_responses.get(key)\<close>: \<open>None\<close> for a missing key; only a dictionary has \<open>get\<close>.\<close>

definition get_answer :: "json \<Rightarrow> string \<Rightarrow> error + json" where
  "get_answer user_responses k =
     (case user_responses of
        JObj d \<Rightarrow> Inr (dict_get d k JNull)
      | _ \<Rightarrow> Inl AttributeError)"

text \<open>The dictionary \<open>results\<close>, with its four fixed keys.\<close>

record results =
  total_questions :: nat
  correct_answers :: nat
  incorrect_answers :: nat
  feedback :: "json list"

definition check_mark :: string where
  "check_mark = [CHR 0xE2, CHR 0x9C, CHR 0x85]"

definition cross_mark :: string where
  "cross_mark = [CHR 0xE2, CHR 0x9D, CHR 0x8C]"

text \<open>The key \<open>f"question_{i}"\<close> under which the form stores the answer to question \<open>i\<close>.\<close>

definition question_key :: "nat \<Rightarrow> string" where
  "question_key i = ''question_'' @ str_nat i"

definition feedback_dict :: "json \<Rightarrow> json \<Rightarrow> json \<Rightarrow> string \<Rightarrow> json" where
  "feedback_dict qtext user_answer correct fb =
     JObj [(''question'', qtext), (''user_answer'', user_answer),
           (''correct_answer'', correct), (''feedback'', JStr fb)]"

text \<open>
  The body of the loop \<open>for i, question in enumerate(assessment["questions"])\<close>, in the
  order in which the source reads the keys; each read can raise.
\<close>

definition evaluate_step :: "json \<Rightarrow> nat \<Rightarrow> json \<Rightarrow> results \<Rightarrow> error + results" where
  "evaluate_step user_responses i question r =
     (case get_answer user_responses (question_key i) of
        Inl e \<Rightarrow> Inl e
      | Inr user_answer \<Rightarrow>
     (case subscript question ''correct_answer'' of
        Inl e \<Rightarrow> Inl e
      | Inr correct \<Rightarrow>
     (case py_eq user_answer correct of
        None \<Rightarrow> Inl OutsideModel
      | Some True \<Rightarrow>
          (case subscript question ''explanation'' of
             Inl e \<Rightarrow> Inl e
           | Inr expl \<Rightarrow>
          (case py_str expl of
             None \<Rightarrow> Inl OutsideModel
           | Some expl_text \<Rightarrow>
          (case subscript question ''text'' of
             Inl e \<Rightarrow> Inl e
           | Inr qtext \<Rightarrow>
               Inr (r\<lparr>correct_answers := correct_answers r + 1,
                       feedback := feedback r @
                         [feedback_dict qtext user_answer correct
                            (check_mark @ '' Correct! '' @ expl_text)]\<rparr>))))
      | Some False \<Rightarrow>
          (case py_str correct of
             None \<Rightarrow> Inl OutsideModel
           | Some correct_text \<Rightarrow>
          (case subscript question ''explanation'' of
             Inl e \<Rightarrow> Inl e
           | Inr expl \<Rightarrow>
          (case py_str expl of
             None \<Rightarrow> Inl OutsideModel
           | Some expl_text \<Rightarrow>
          (case subscript question ''text'' of
             Inl e \<Rightarrow> Inl e
           | Inr qtext \<Rightarrow>
               Inr (r\<lparr>incorrect_answers := incorrect_answers r + 1,
                       feedback := feedback r @
                         [feedback_dict qtext user_answer correct
                            (cross_mark @ '' Incorrect. The correct answer is: '' @
                             correct_text @ ''. '' @ expl_text)]\<rparr>))))))))"

fun evaluate_loop :: "json \<Rightarrow> nat \<Rightarrow> json list \<Rightarrow> results \<Rightarrow> error + results" where
  "evaluate_loop user_responses i [] r = Inr r"
| "evaluate_loop user_responses i (q # qs) r =
     (case evaluate_step user_responses i q r of
        Inl e \<Rightarrow> Inl e
      | Inr r1 \<Rightarrow> evaluate_loop user_responses (Suc i) qs r1)"

definition evaluate_responses :: "json \<Rightarrow> json \<Rightarrow> error + results" where
  "evaluate_responses assessment user_responses =
     (case subscript assessment ''questions'' of
        Inl e \<Rightarrow> Inl e
      | Inr qv \<Rightarrow>
          (case iter_items qv of
             Inl e \<Rightarrow> Inl e
           | Inr questions \<Rightarrow>
               evaluate_loop user_responses 0 questions
                 \<lparr>total_questions = length questions, correct_answers = 0,
                  incorrect_answers = 0, feedback = []\<rparr>))"

subsection \<open>What the specification expects of the scorer\<close>

text \<open>
  A question as the prompt of \<open>generate_knowledge_assessment\<close> asks for it: five keys,
  all texts. \<open>is_question\<close> relates a stored dictionary to such a question through the
  three keys the scorer reads.
\<close>

record question =
  q_text :: string
  q_options :: "string list"
  correct_answer :: string
  explanation :: string
  category :: string

definition is_question :: "json \<Rightarrow> question \<Rightarrow> bool" where
  "is_question j q =
     (case j of
        JObj d \<Rightarrow>
          map_of d ''text'' = Some (JStr (q_text q)) \<and>
          map_of d ''correct_answer'' = Some (JStr (correct_answer q)) \<and>
          map_of d ''explanation'' = Some (JStr (explanation q))
      | _ \<Rightarrow> False)"

text \<open>
  The decimal numeral of a number: digits only, no leading zero, read back by
  \<open>nat_of_digits\<close>. It fixes the key \<open>question_i\<close> without the scorer's own formatting.
\<close>

definition is_decimal :: "string \<Rightarrow> nat \<Rightarrow> bool" where
  "is_decimal ds n =
     (ds \<noteq> [] \<and> list_all is_digit ds \<and> (hd ds = CHR ''0'' \<longrightarrow> ds = ''0'') \<and>
      nat_of_digits ds = n)"

text \<open>
  The submitted answers as the claim has them: for each question index the chosen
  option, or nothing. \<open>expected_results\<close> is the result in the specification's words.
\<close>

definition answer_json :: "string option \<Rightarrow> json" where
  "answer_json a = (case a of None \<Rightarrow> JNull | Some s \<Rightarrow> JStr s)"

definition expected_entry :: "string option \<Rightarrow> question \<Rightarrow> json" where
  "expected_entry a q =
     JObj [(''question'', JStr (q_text q)),
           (''user_answer'', answer_json a),
           (''correct_answer'', JStr (correct_answer q)),
           (''feedback'', JStr
              (if a = Some (correct_answer q)
               then check_mark @ '' Correct! '' @ explanation q
               else cross_mark @ '' Incorrect. The correct answer is: '' @
                 correct_answer q @ ''. '' @ explanation q))]"

definition expected_results :: "(nat \<Rightarrow> string option) \<Rightarrow> question list \<Rightarrow> results" where
  "expected_results answers qs =
     (let hits = length (filter (\<lambda>i. answers i = Some (correct_answer (qs ! i))) [0..<length qs])
      in \<lparr>total_questions = length qs,
          correct_answers = hits,
          incorrect_answers = length qs - hits,
          feedback = map (\<lambda>i. expected_entry (answers i) (qs ! i)) [0..<length qs]\<rparr>)"

text \<open>Sample data: a quiz of eleven questions, answered in part, in full and not at all.\<close>

definition question_json :: "question \<Rightarrow> json" where
  "question_json q =
     JObj [(''text'', JStr (q_text q)),
           (''options'', JArr (map JStr (q_options q))),
           (''correct_answer'', JStr (correct_answer q)),
           (''explanation'', JStr (explanation q)),
           (''category'', JStr (category q))]"

definition quiz_question :: "string \<Rightarrow> string \<Rightarrow> question" where
  "quiz_question t c =
     \<lparr>q_text = t, q_options = [''a'', ''b'', ''c'', ''d''], correct_answer = c,
      explanation = ''See the leaflet.'', category = ''Self-management''\<rparr>"

definition quiz11 :: "question list" where
  "quiz11 =
     [quiz_question ''Q0'' ''b'', quiz_question ''Q1'' ''a'', quiz_question ''Q2'' ''d'',
      quiz_question ''Q3'' ''c'', quiz_question ''Q4'' ''a'', quiz_question ''Q5'' ''b'',
      quiz_question ''Q6'' ''d'', quiz_question ''Q7'' ''c'', quiz_question ''Q8'' ''a'',
      quiz_question ''Q9'' ''b'', quiz_question ''Q10'' ''c'']"

definition assessment11 :: json where
  "assessment11 = JObj [(''questions'', JArr (map question_json quiz11))]"

definition some_answers :: "nat \<Rightarrow> string option" where
  "some_answers i =
     (if i = 0 then Some ''b'' else if i = 3 then Some ''a'' else if i = 10 then Some ''c'' else None)"

definition some_responses :: "(string \<times> json) list" where
  "some_responses =
     [(''question_0'', JStr ''b''), (''question_3'', JStr ''a''), (''question_10'', JStr ''c'')]"

definition all_answers :: "nat \<Rightarrow> string option" where
  "all_answers i = (if i < 11 then Some (correct_answer (quiz11 ! i)) else None)"

definition all_responses :: "(string \<times> json) list" where
  "all_responses =
     [(''question_0'', JStr ''b''), (''question_1'', JStr ''a''), (''question_2'', JStr ''d''),
      (''question_3'', JStr ''c''), (''question_4'', JStr ''a''), (''question_5'', JStr ''b''),
      (''question_6'', JStr ''d''), (''question_7'', JStr ''c''), (''question_8'', JStr ''a''),
      (''question_9'', JStr ''b''), (''question_10'', JStr ''c'')]"

text \<open>A quiz whose only question has \<open>null\<close> for its correct answer.\<close>

definition null_assessment :: json where
  "null_assessment =
     JObj [(''questions'',
        JArr [JObj [(''text'', JStr ''Q''), (''options'', JArr []), (''correct_answer'', JNull),
                    (''explanation'', JStr ''none''), (''category'', JStr ''c'')]])]"

section \<open>Sample data\<close>

text \<open>A store with one patient, one material and one chat message; no data file yet.\<close>

definition intake1 :: intake where
  "intake1 = \<lparr>name = ''Ann Lee'', age = 54, gender = ''Female'', education_level = ''College'',
     language = ''English'', condition = ''Type 2 diabetes'', treatment = ''Diet and metformin'',
     medications = ''Metformin 500 mg'', learning_style = ''Visual'', special_needs = []\<rparr>"

definition patient1 :: json where
  "patient1 = patient_dict ''0f8fad5b-d9cb-469f-a165-70867728950e'' ''2024-05-01 10:00:00'' intake1"

definition material1 :: json where
  "material1 = material_dict ''7c9e6679-7425-40de-944b-e07fc1f90ae7'' ''2024-05-01 10:05:00''
     (JStr ''0f8fad5b-d9cb-469f-a165-70867728950e'') (JStr ''Ann Lee'') (JStr ''Type 2 diabetes'')
     ''Eat regular meals.''"

definition world1 :: world where
  "world1 =
     \<lparr>patient_records = JArr [patient1],
      generated_materials = JArr [material1],
      chat_history = JObj [(''0f8fad5b-d9cb-469f-a165-70867728950e'',
         JArr [chat_message ''user'' ''Hello'' ''2024-05-01 10:01:00''])],
      patient_assessments = JObj [],
      data_file = None\<rparr>"

section \<open>Values that survive a dump and a load\<close>

text \<open>
  The values for which \<open>json.loads(json.dumps(x)) == x\<close> is proved below: no float
  anywhere, and no key twice in a dictionary (a Python dictionary never has one twice).
\<close>

fun json_ok :: "json \<Rightarrow> bool"
  and json_ok_list :: "json list \<Rightarrow> bool"
  and json_ok_members :: "(string \<times> json) list \<Rightarrow> bool" where
  "json_ok JNull = True"
| "json_ok (JBool b) = True"
| "json_ok (JInt i) = True"
| "json_ok (JFloat r) = False"
| "json_ok (JStr s) = True"
| "json_ok (JArr xs) = json_ok_list xs"
| "json_ok (JObj kvs) = (distinct (map fst kvs) \<and> json_ok_members kvs)"
| "json_ok_list [] = True"
| "json_ok_list (x # xs) = (json_ok x \<and> json_ok_list xs)"
| "json_ok_members [] = True"
| "json_ok_members (kv # kvs) = (json_ok (snd kv) \<and> json_ok_members kvs)"

text \<open>A bound on the depth of recursion the decoder needs for a value.\<close>

fun weight :: "json \<Rightarrow> nat"
  and weight_list :: "json list \<Rightarrow> nat"
  and weight_members :: "(string \<times> json) list \<Rightarrow> nat" where
  "weight JNull = 1"
| "weight (JBool b) = 1"
| "weight (JInt i) = 1"
| "weight (JFloat r) = 1"
| "weight (JStr s) = 1"
| "weight (JArr xs) = Suc (weight_list xs)"
| "weight (JObj kvs) = Suc (weight_members kvs)"
| "weight_list [] = 0"
| "weight_list (x # xs) = Suc (weight x + weight_list xs)"
| "weight_members [] = 0"
| "weight_members (kv # kvs) = Suc (weight (snd kv) + weight_members kvs)"

text \<open>What may follow a value in a dumped text: nothing, a comma or a closing bracket.\<close>

definition delim :: "string \<Rightarrow> bool" where
  "delim rest = (case rest of [] \<Rightarrow> True | c # _ \<Rightarrow> c = CHR '','' \<or> c = CHR '']'' \<or> c = CHR ''}'')"

text \<open>The session of a process that has just started, before \<open>load_data\<close> runs.\<close>

definition fresh_world :: "string option \<Rightarrow> world" where
  "fresh_world file =
     \<lparr>patient_records = JArr [], generated_materials = JArr [], chat_history = JObj [],
      patient_assessments = JObj [], data_file = file\<rparr>"

section \<open>Properties of the scorer\<close>

lemma digit_char_props:
  "d < 10 \<Longrightarrow> is_digit (digit_char d) \<and> (of_char (digit_char d) :: nat) = 48 + d"
  by (simp add: digit_char_def is_digit_def)

lemma digit_char_0: "digit_char 0 = CHR ''0''"
  by code_simp

lemma digit_char_zero: "d < 10 \<Longrightarrow> digit_char d = CHR ''0'' \<Longrightarrow> d = 0"
proof -
  assume d: "d < 10" and z: "digit_char d = CHR ''0''"
  have "(of_char (digit_char d) :: nat) = 48 + d"
    using d by (simp add: digit_char_props)
  with z show "d = 0" by simp
qed

lemma nat_of_digits_snoc:
  "nat_of_digits (ds @ [c]) = 10 * nat_of_digits ds + ((of_char c :: nat) - 48)"
  by (simp add: nat_of_digits_def)

lemma str_nat_small: "n < 10 \<Longrightarrow> str_nat n = [digit_char n]"
  by (simp add: str_nat.simps)

lemma str_nat_large: "\<not> n < 10 \<Longrightarrow> str_nat n = str_nat (n div 10) @ [digit_char (n mod 10)]"
  by (subst str_nat.simps) simp

lemma str_nat_nonempty: "str_nat n \<noteq> []"
  by (cases "n < 10") (simp_all add: str_nat_small str_nat_large)

lemma str_nat_is_decimal: "is_decimal (str_nat n) n"
proof (induction n rule: str_nat.induct)
  case (1 n)
  show ?case
  proof (cases "n < 10")
    case True
    then show ?thesis
      using digit_char_props [of n] digit_char_zero [of n]
      by (auto simp: str_nat_small is_decimal_def nat_of_digits_def)
  next
    case False
    let ?m = "n div 10"
    from False 1 have ih: "is_decimal (str_nat ?m) ?m" by simp
    have m: "?m \<noteq> 0" using False by simp
    have d: "is_digit (digit_char (n mod 10))" "(of_char (digit_char (n mod 10)) :: nat) = 48 + n mod 10"
      using digit_char_props [of "n mod 10"] by simp_all
    have hd0: "hd (str_nat ?m) \<noteq> CHR ''0''"
    proof
      assume "hd (str_nat ?m) = CHR ''0''"
      with ih have "str_nat ?m = ''0''" by (simp add: is_decimal_def)
      with ih have "?m = 0" by (simp add: is_decimal_def nat_of_digits_def)
      with m show False by simp
    qed
    from ih d hd0 show ?thesis
      by (simp add: str_nat_large [OF False] is_decimal_def nat_of_digits_snoc)
  qed
qed

lemma digit_char_of_char:
  "is_digit c \<Longrightarrow> digit_char ((of_char c :: nat) - 48) = c"
  by (simp add: digit_char_def is_digit_def)

lemma decimal_unique: "is_decimal ds n \<Longrightarrow> ds = str_nat n"
proof (induction ds arbitrary: n rule: rev_induct)
  case Nil
  then show ?case by (simp add: is_decimal_def)
next
  case (snoc c xs)
  from snoc.prems have c: "is_digit c" and all: "list_all is_digit xs"
    and n: "n = 10 * nat_of_digits xs + ((of_char c :: nat) - 48)"
    by (simp_all add: is_decimal_def nat_of_digits_snoc)
  have v: "(of_char c :: nat) - 48 < 10"
    using c by (auto simp: is_digit_def)
  show ?case
  proof (cases "xs = []")
    case True
    with n v have "n < 10" "n = (of_char c :: nat) - 48"
      by (simp_all add: nat_of_digits_def)
    with c True show ?thesis
      by (simp add: str_nat_small digit_char_of_char)
  next
    case False
    have "hd xs \<noteq> CHR ''0''"
    proof
      assume "hd xs = CHR ''0''"
      with False have "hd (xs @ [c]) = CHR ''0''" by simp
      with snoc.prems have "xs @ [c] = ''0''" by (simp add: is_decimal_def)
      with False show False by simp
    qed
    with False all have dec: "is_decimal xs (nat_of_digits xs)"
      by (simp add: is_decimal_def)
    then have xs: "xs = str_nat (nat_of_digits xs)" by (rule snoc.IH)
    have pos: "nat_of_digits xs \<noteq> 0"
    proof
      assume z: "nat_of_digits xs = 0"
      with xs have "xs = ''0''" by (simp add: str_nat_small digit_char_0)
      with \<open>hd xs \<noteq> CHR ''0''\<close> show False by simp
    qed
    from n v pos have big: "\<not> n < 10" and dv: "n div 10 = nat_of_digits xs"
      and md: "n mod 10 = (of_char c :: nat) - 48"
      by simp_all
    show ?thesis
      using xs c by (simp add: str_nat_large [OF big] dv md digit_char_of_char)
  qed
qed


lemma evaluate_step_wellformed:
  assumes "is_question j q"
    and "get_answer ur (question_key i) = Inr (answer_json a)"
  shows "evaluate_step ur i j r =
     Inr (r\<lparr>correct_answers := correct_answers r + (if a = Some (correct_answer q) then 1 else 0),
             incorrect_answers := incorrect_answers r + (if a = Some (correct_answer q) then 0 else 1),
             feedback := feedback r @ [expected_entry a q]\<rparr>)"
proof -
  from assms(1) obtain d where j: "j = JObj d"
    and t: "map_of d ''text'' = Some (JStr (q_text q))"
    and c: "map_of d ''correct_answer'' = Some (JStr (correct_answer q))"
    and e: "map_of d ''explanation'' = Some (JStr (explanation q))"
    by (cases j) (simp_all add: is_question_def)
  show ?thesis
  proof (cases a)
    case None
    with assms(2) j t c e show ?thesis
      by (simp add: evaluate_step_def subscript_def py_str_def answer_json_def
          expected_entry_def feedback_dict_def)
  next
    case (Some s)
    show ?thesis
    proof (cases "s = correct_answer q")
      case True
      with Some assms(2) j t c e show ?thesis
        by (simp add: evaluate_step_def subscript_def py_str_def answer_json_def
            expected_entry_def feedback_dict_def)
    next
      case False
      then have "(JStr (correct_answer q) = JStr s) = False" by auto
      with False Some assms(2) j t c e show ?thesis
        by (simp add: evaluate_step_def subscript_def py_str_def answer_json_def
            expected_entry_def feedback_dict_def)
    qed
  qed
qed

lemma upt_0_Suc_shift: "[0..<Suc n] = 0 # map Suc [0..<n]"
  by (simp add: upt_conv_Cons map_Suc_upt del: upt_Suc)

lemma evaluate_loop_wellformed:
  "list_all2 is_question js qs \<Longrightarrow>
   (\<forall>k < length qs. get_answer ur (question_key (i + k)) = Inr (answer_json (answers (i + k)))) \<Longrightarrow>
   evaluate_loop ur i js r =
     Inr (r\<lparr>correct_answers := correct_answers r +
               length (filter (\<lambda>k. answers (i + k) = Some (correct_answer (qs ! k))) [0..<length qs]),
             incorrect_answers := incorrect_answers r +
               length (filter (\<lambda>k. answers (i + k) \<noteq> Some (correct_answer (qs ! k))) [0..<length qs]),
             feedback := feedback r @
               map (\<lambda>k. expected_entry (answers (i + k)) (qs ! k)) [0..<length qs]\<rparr>)"
proof (induction js qs arbitrary: i r rule: list_all2_induct)
  case Nil
  then show ?case by simp
next
  case (Cons j js q qs)
  from Cons.prems have h0: "get_answer ur (question_key i) = Inr (answer_json (answers i))"
    by force
  from Cons.prems have hs: "\<forall>k < length qs.
      get_answer ur (question_key (Suc i + k)) = Inr (answer_json (answers (Suc i + k)))"
    by force
  note step = evaluate_step_wellformed [OF Cons.hyps(1) h0]
  note rest = Cons.IH [OF hs]
  show ?case
    by (simp add: step rest upt_0_Suc_shift filter_map comp_def del: upt_Suc)
qed


text \<open>
  Claim C2, amended. For every assessment whose \<open>questions\<close> is a list of dictionaries
  with string \<open>text\<close>, \<open>correct_answer\<close> and \<open>explanation\<close>, and every dictionary of
  submitted answers that holds under the key \<open>question_\<close> followed by the decimal numeral
  of \<open>i\<close> the text chosen for question \<open>i\<close>, or no such key: \<open>evaluate_responses\<close>
  returns the result with \<open>total = len(questions)\<close>, \<open>correct\<close> the number of questions whose
  submitted answer is exactly the question's \<open>correct_answer\<close> (a missing one is not),
  \<open>incorrect = total - correct\<close>, and one feedback entry per question, in order, with
  the question text, the submitted answer or \<open>None\<close>, the correct answer and a text that
  ends in the explanation. If every question's submitted answer is its
  \<open>correct_answer\<close> then \<open>incorrect = 0\<close> and \<open>correct = total\<close>; if the dictionary of
  answers is empty then \<open>correct = 0\<close>.
\<close>

theorem evaluate_responses_wellformed:
  assumes "map_of a ''questions'' = Some (JArr js)"
    and "list_all2 is_question js qs"
    and "\<forall>i < length qs. \<forall>ds. is_decimal ds i \<longrightarrow>
           map_of d (''question_'' @ ds) = map_option JStr (answers i)"
  shows "evaluate_responses (JObj a) (JObj d) = Inr (expected_results answers qs) \<and>
         total_questions (expected_results answers qs) = length qs \<and>
         incorrect_answers (expected_results answers qs) =
           total_questions (expected_results answers qs) - correct_answers (expected_results answers qs) \<and>
         length (feedback (expected_results answers qs)) = length qs \<and>
         ((\<forall>i < length qs. answers i = Some (correct_answer (qs ! i))) \<longrightarrow>
            incorrect_answers (expected_results answers qs) = 0 \<and>
            correct_answers (expected_results answers qs) = total_questions (expected_results answers qs)) \<and>
         (d = [] \<longrightarrow> correct_answers (expected_results answers qs) = 0)"
proof -
  let ?hit = "\<lambda>i. answers i = Some (correct_answer (qs ! i))"
  let ?hits = "length (filter ?hit [0..<length qs])"
  have len: "length js = length qs"
    using assms(2) by (rule list_all2_lengthD)
  have ans: "\<forall>k < length qs. get_answer (JObj d) (question_key (0 + k)) = Inr (answer_json (answers (0 + k)))"
  proof (intro allI impI)
    fix k assume k: "k < length qs"
    have "map_of d (''question_'' @ str_nat k) = map_option JStr (answers k)"
      using assms(3) k str_nat_is_decimal [of k] by blast
    then show "get_answer (JObj d) (question_key (0 + k)) = Inr (answer_json (answers (0 + k)))"
      by (cases "answers k") (simp_all add: get_answer_def question_key_def dict_get_def answer_json_def)
  qed
  have compl: "?hits + length (filter (\<lambda>i. \<not> ?hit i) [0..<length qs]) = length qs"
    using sum_length_filter_compl [of ?hit "[0..<length qs]"] by simp
  then have miss: "length (filter (\<lambda>i. \<not> ?hit i) [0..<length qs]) = length qs - ?hits"
    by simp
  have run: "evaluate_responses (JObj a) (JObj d) = Inr (expected_results answers qs)"
    using evaluate_loop_wellformed [OF assms(2) ans,
        of "\<lparr>total_questions = length js, correct_answers = 0, incorrect_answers = 0, feedback = []\<rparr>"]
    by (simp add: evaluate_responses_def subscript_def assms(1) iter_items_def
        expected_results_def Let_def miss len)
  have allc: "?hits = length qs" if "\<forall>i < length qs. ?hit i"
  proof -
    have "filter ?hit [0..<length qs] = [0..<length qs]"
      using that by simp
    then show ?thesis by simp
  qed
  have emp: "?hits = 0" if "d = []"
  proof -
    have "\<forall>k < length qs. answers k = None"
      using assms(3) that str_nat_is_decimal by fastforce
    then have "filter ?hit [0..<length qs] = []"
      by simp
    then show ?thesis by simp
  qed
  from run allc emp show ?thesis
    by (simp add: expected_results_def Let_def)
qed

text \<open>
  The claim as written fails without the condition on the assessment: the scorer compares
  with Python's \<open>==\<close>, so a missing answer, \<open>None\<close>, equals a \<open>correct_answer\<close> that
  is \<open>null\<close>, and an empty dictionary of answers scores one correct answer.
\<close>

theorem evaluate_responses_null_counterexample:
  "evaluate_responses null_assessment (JObj []) =
     Inr \<lparr>total_questions = 1, correct_answers = 1, incorrect_answers = 0,
          feedback = [feedback_dict (JStr ''Q'') JNull JNull (check_mark @ '' Correct! none'')]\<rparr>"
  by (simp add: evaluate_responses_def null_assessment_def subscript_def iter_items_def
      evaluate_step_def get_answer_def dict_get_def py_str_def)


lemma question_json_is_question: "list_all2 is_question (map question_json qs) qs"
  by (induction qs) (simp_all add: is_question_def question_json_def)

theorem evaluate_responses_wellformed_witness:
  "evaluate_responses assessment11 (JObj some_responses) = Inr (expected_results some_answers quiz11) \<and>
   total_questions (expected_results some_answers quiz11) = 11 \<and>
   correct_answers (expected_results some_answers quiz11) = 2 \<and>
   incorrect_answers (expected_results some_answers quiz11) = 9 \<and>
   evaluate_responses assessment11 (JObj all_responses) = Inr (expected_results all_answers quiz11) \<and>
   incorrect_answers (expected_results all_answers quiz11) = 0 \<and>
   correct_answers (expected_results all_answers quiz11) = 11 \<and>
   evaluate_responses assessment11 (JObj []) = Inr (expected_results (\<lambda>i. None) quiz11) \<and>
   correct_answers (expected_results (\<lambda>i. None) quiz11) = 0"
proof -
  let ?a = "[(''questions'', JArr (map question_json quiz11))]"
  have len: "length quiz11 = 11"
    by (simp add: quiz11_def)
  have q: "map_of ?a ''questions'' = Some (JArr (map question_json quiz11))"
    by simp
  have keys: "\<forall>i < length quiz11. \<forall>ds. is_decimal ds i \<longrightarrow> map_of d (''question_'' @ ds) = map_option JStr (answers i)"
    if "list_all (\<lambda>i. map_of d (''question_'' @ str_nat i) = map_option JStr (answers i)) [0..<11]"
    for d answers
  proof (intro allI impI)
    fix i ds assume i: "i < length quiz11" and dec: "is_decimal ds i"
    from dec have ds: "ds = str_nat i" by (rule decimal_unique)
    from that i have "map_of d (''question_'' @ str_nat i) = map_option JStr (answers i)"
      by (simp add: list_all_iff len)
    with ds show "map_of d (''question_'' @ ds) = map_option JStr (answers i)"
      by simp
  qed
  have k1: "list_all (\<lambda>i. map_of some_responses (''question_'' @ str_nat i) = map_option JStr (some_answers i)) [0..<11]"
    by code_simp
  have k2: "list_all (\<lambda>i. map_of all_responses (''question_'' @ str_nat i) = map_option JStr (all_answers i)) [0..<11]"
    by code_simp
  have k3: "list_all (\<lambda>i. map_of [] (''question_'' @ str_nat i) = map_option JStr ((\<lambda>i. None) i)) [0..<11]"
    by code_simp
  have allc: "\<forall>i < length quiz11. all_answers i = Some (correct_answer (quiz11 ! i))"
    by (simp add: all_answers_def len)
  note w1 = evaluate_responses_wellformed [OF q question_json_is_question keys [OF k1]]
  note w2 = evaluate_responses_wellformed [OF q question_json_is_question keys [OF k2]]
  note w3 = evaluate_responses_wellformed [OF q question_json_is_question keys [OF k3]]
  have c1: "correct_answers (expected_results some_answers quiz11) = 2"
    by code_simp
  from w1 have r1: "evaluate_responses assessment11 (JObj some_responses) = Inr (expected_results some_answers quiz11)"
    and t1: "total_questions (expected_results some_answers quiz11) = length quiz11"
    and i1: "incorrect_answers (expected_results some_answers quiz11) =
      total_questions (expected_results some_answers quiz11) - correct_answers (expected_results some_answers quiz11)"
    by (simp_all add: assessment11_def)
  from w2 allc have r2: "evaluate_responses assessment11 (JObj all_responses) = Inr (expected_results all_answers quiz11)"
    and i2: "incorrect_answers (expected_results all_answers quiz11) = 0"
    and c2: "correct_answers (expected_results all_answers quiz11) = total_questions (expected_results all_answers quiz11)"
    and t2: "total_questions (expected_results all_answers quiz11) = length quiz11"
    by (simp_all add: assessment11_def)
  from w3 have r3: "evaluate_responses assessment11 (JObj []) = Inr (expected_results (\<lambda>i. None) quiz11)"
    and c3: "correct_answers (expected_results (\<lambda>i. None) quiz11) = 0"
    by (simp_all add: assessment11_def)
  from r1 t1 i1 c1 r2 i2 c2 t2 r3 c3 len show ?thesis
    by simp
qed

section \<open>Properties of the record store\<close>





text \<open>
  Claim C6. When the name or the condition of the intake form is empty, the submit
  handler reports the validation error and changes nothing: not the patient collection
  nor any other part of the store.
\<close>

theorem create_patient_rejects_empty:
  "name f = [] \<or> condition f = [] \<Longrightarrow> create_patient random now f w = (Inl ValidationError, w)"
  by (auto simp: create_patient_def)

theorem create_patient_rejects_empty_witness:
  "create_patient 7 ''2024-05-02 09:00:00'' (intake1\<lparr>name := []\<rparr>) world1 = (Inl ValidationError, world1) \<and>
   create_patient 7 ''2024-05-02 09:00:00'' (intake1\<lparr>condition := []\<rparr>) world1 = (Inl ValidationError, world1)"
  using create_patient_rejects_empty [of "intake1\<lparr>name := []\<rparr>" 7 "''2024-05-02 09:00:00''" world1]
    create_patient_rejects_empty [of "intake1\<lparr>condition := []\<rparr>" 7 "''2024-05-02 09:00:00''" world1]
  by simp





section \<open>Creating a patient\<close>








section \<open>A failed remote call\<close>

lemma chat_send_keeps_others:
  "patient_records (snd (chat_send now1 now2 p q response w)) = patient_records w \<and>
   generated_materials (snd (chat_send now1 now2 p q response w)) = generated_materials w"
  by (simp add: chat_send_def save_data_def Let_def split: sum.splits json.splits)

text \<open>
  Claim C8, amended. When the remote call fails: \<open>generate_patient_education\<close> returns
  its error text and writes nothing; the Generate button of the assessment page writes
  nothing; the chat page changes neither the patients nor the materials, but it appends
  the user's message and the fixed apology text as the assistant's reply to the
  patient's chat history and saves the store.
\<close>

theorem generation_failure_effects:
  "generate_patient_education random now p None w = (education_error_text, w) \<and>
   snd (generate_assessment_pressed p None w) = w \<and>
   patient_records (snd (chat_send now1 now2 p q None w)) = patient_records w \<and>
   generated_materials (snd (chat_send now1 now2 p q None w)) = generated_materials w \<and>
   (subscript p ''id'' = Inr (JStr pid) \<and> chat_history w = JObj d \<and>
    map_of d pid = Some (JArr h) \<and> q \<noteq> [] \<longrightarrow>
      chat_send now1 now2 p q None w =
        (Inr (), save_data (w\<lparr>chat_history := JObj (AList.update pid
           (JArr (h @ [chat_message ''user'' q now1,
                       chat_message ''assistant'' chat_error_text now2])) d)\<rparr>)))"
proof (intro conjI impI)
  show "generate_patient_education random now p None w = (education_error_text, w)"
    by (simp add: generate_patient_education_def)
  have "generate_knowledge_assessment p None = Some generation_failed"
    by (simp add: generate_knowledge_assessment_def)
  moreover have "contains_error generation_failed = Inr True"
    by (simp add: contains_error_def generation_failed_def)
  ultimately show "snd (generate_assessment_pressed p None w) = w"
    by (simp add: generate_assessment_pressed_def split: sum.splits json.splits)
  show "patient_records (snd (chat_send now1 now2 p q None w)) = patient_records w"
    by (simp add: chat_send_keeps_others)
  show "generated_materials (snd (chat_send now1 now2 p q None w)) = generated_materials w"
    by (simp add: chat_send_keeps_others)
next
  assume a: "subscript p ''id'' = Inr (JStr pid) \<and> chat_history w = JObj d \<and>
    map_of d pid = Some (JArr h) \<and> q \<noteq> []"
  have bot: "chat_with_patient p None = chat_error_text"
    by (simp add: chat_with_patient_def)
  from a show "chat_send now1 now2 p q None w =
        (Inr (), save_data (w\<lparr>chat_history := JObj (AList.update pid
           (JArr (h @ [chat_message ''user'' q now1,
                       chat_message ''assistant'' chat_error_text now2])) d)\<rparr>))"
    by (simp add: chat_send_def bot dict_get_def list_append_def Let_def)
qed

theorem generation_failure_effects_witness:
  "generate_patient_education 7 ''2024-05-02 09:00:00'' patient1 None world1 = (education_error_text, world1) \<and>
   snd (generate_assessment_pressed patient1 None world1) = world1 \<and>
   chat_send ''2024-05-02 09:00:00'' ''2024-05-02 09:00:02'' patient1 ''Why?'' None world1 =
     (Inr (), save_data (world1\<lparr>chat_history := JObj [(''0f8fad5b-d9cb-469f-a165-70867728950e'',
        JArr [chat_message ''user'' ''Hello'' ''2024-05-01 10:01:00'',
              chat_message ''user'' ''Why?'' ''2024-05-02 09:00:00'',
              chat_message ''assistant'' chat_error_text ''2024-05-02 09:00:02''])]\<rparr>))"
proof -
  let ?pid = "''0f8fad5b-d9cb-469f-a165-70867728950e''"
  let ?d = "[(?pid, JArr [chat_message ''user'' ''Hello'' ''2024-05-01 10:01:00''])]"
  have a: "subscript patient1 ''id'' = Inr (JStr ?pid) \<and> chat_history world1 = JObj ?d \<and>
      map_of ?d ?pid = Some (JArr [chat_message ''user'' ''Hello'' ''2024-05-01 10:01:00'']) \<and> ''Why?'' \<noteq> []"
    by (simp add: subscript_def patient1_def patient_dict_def world1_def)
  from generation_failure_effects [of 7 "''2024-05-02 09:00:00''" patient1 world1
      "''2024-05-02 09:00:00''" "''2024-05-02 09:00:02''" "''Why?''" ?pid ?d
      "[chat_message ''user'' ''Hello'' ''2024-05-01 10:01:00'']"] a
  show ?thesis
    by simp
qed

text \<open>
  The claim as written fails on the chat page: after a failed call the patient's chat
  history holds two more messages, and they are written to the data file.
\<close>

theorem chat_failure_counterexample:
  "chat_history (snd (chat_send ''2024-05-02 09:00:00'' ''2024-05-02 09:00:02'' patient1 ''Why?'' None world1)) =
     JObj [(''0f8fad5b-d9cb-469f-a165-70867728950e'',
        JArr [chat_message ''user'' ''Hello'' ''2024-05-01 10:01:00'',
              chat_message ''user'' ''Why?'' ''2024-05-02 09:00:00'',
              chat_message ''assistant'' chat_error_text ''2024-05-02 09:00:02''])] \<and>
   chat_history (snd (chat_send ''2024-05-02 09:00:00'' ''2024-05-02 09:00:02'' patient1 ''Why?'' None world1)) \<noteq>
     chat_history world1 \<and>
   data_file (snd (chat_send ''2024-05-02 09:00:00'' ''2024-05-02 09:00:02'' patient1 ''Why?'' None world1)) \<noteq>
     data_file world1"
  by (simp add: chat_send_def subscript_def patient1_def patient_dict_def world1_def
      dict_get_def list_append_def chat_with_patient_def has_keys_def chat_keys_def
      save_data_def Let_def)

section \<open>The structured answer of the model\<close>








text \<open>
  The source's \<open>replace("", "")\<close> removes nothing, so an answer inside code fences keeps
  them and does not parse, although the comment above line 81 announces their removal.
\<close>

lemma fenced_answer_is_rejected:
  \<open>generate_knowledge_assessment patient1
     (Some (''```json'' @ [CHR 0x0A] @ ''{"questions": []}'' @ [CHR 0x0A] @ ''```'')) =
   Some (parse_failed (''```'' @ [CHR 0x0A] @ ''{"questions": []}'' @ [CHR 0x0A] @ ''```''))\<close>
proof -
  have k: "has_keys patient1 assessment_keys"
    by (simp add: has_keys_def assessment_keys_def patient1_def patient_dict_def)
  have c: \<open>clean_response (''```json'' @ [CHR 0x0A] @ ''{"questions": []}'' @ [CHR 0x0A] @ ''```'') =
      ''```'' @ [CHR 0x0A] @ ''{"questions": []}'' @ [CHR 0x0A] @ ''```''\<close>
    by code_simp
  have p: \<open>json_loads (''```'' @ [CHR 0x0A] @ ''{"questions": []}'' @ [CHR 0x0A] @ ''```'') = Inl JSONDecodeError\<close>
    by code_simp
  show ?thesis
    using k c p by (simp add: generate_knowledge_assessment_def)
qed

section \<open>A dump followed by a load\<close>

lemma hex_value_hex_digit: "d < 16 \<Longrightarrow> hex_value (hex_digit d) = Some d"
  by (auto simp: hex_value_def hex_digit_def Let_def)

lemma hex_value_zero: "hex_value CHR ''0'' = Some 0"
  by (simp add: hex_value_def)

lemma scan_string_escape:
  "scan_string (escape_char c @ tail) = push_char c (scan_string tail)"
proof -
  let ?n = "of_char c :: nat"
  have n256: "?n < 256" by simp
  consider (q) "c = dquote" | (b) "c = bslash" | (nl) "c = CHR 0x0A" | (cr) "c = CHR 0x0D"
    | (tab) "c = CHR 0x09" | (bs) "c = CHR 0x08" | (ff) "c = CHR 0x0C"
    | (plain) "c \<noteq> dquote" "c \<noteq> bslash" "32 \<le> ?n" "?n \<le> 126"
    | (other) "c \<noteq> dquote" "c \<noteq> bslash" "c \<noteq> CHR 0x0A" "c \<noteq> CHR 0x0D" "c \<noteq> CHR 0x09"
        "c \<noteq> CHR 0x08" "c \<noteq> CHR 0x0C" "\<not> (32 \<le> ?n \<and> ?n \<le> 126)"
    by blast
  then show ?thesis
  proof cases
    case plain
    then have "escape_char c = [c]"
      by (auto simp: escape_char_def)
    with plain show ?thesis by simp
  next
    case other
    then have e: "escape_char c = [bslash, CHR ''u'', CHR ''0'', CHR ''0'',
        hex_digit (?n div 16), hex_digit (?n mod 16)]"
      by (simp add: escape_char_def)
    have d: "?n div 16 < 16"
      using n256 less_mult_imp_div_less [of ?n 16 16] by simp
    have "hex4 CHR ''0'' CHR ''0'' (hex_digit (?n div 16)) (hex_digit (?n mod 16)) = Some ?n"
      using d by (simp add: hex4_def hex_value_zero hex_value_hex_digit)
    with e n256 show ?thesis by simp
  qed (simp_all add: escape_char_def unescape_def)
qed

lemma scan_string_encoded:
  "scan_string (concat (map escape_char s) @ dquote # rest) = Inr (s, rest)"
  by (induction s) (simp_all add: scan_string_escape push_char_def)

lemma delim_not_digit: "delim rest \<Longrightarrow> takeWhile is_digit rest = [] \<and> dropWhile is_digit rest = rest"
  by (cases rest) (auto simp: delim_def is_digit_def)

lemma digits_then_delim:
  "list_all is_digit ds \<Longrightarrow> delim rest \<Longrightarrow>
   takeWhile is_digit (ds @ rest) = ds \<and> dropWhile is_digit (ds @ rest) = rest"
  by (induction ds) (simp_all add: delim_not_digit)

lemma scan_int_part_str_nat:
  assumes "delim rest"
  shows "scan_int_part (str_nat n @ rest) = Some (str_nat n, rest)"
proof -
  from str_nat_is_decimal [of n] have ne: "str_nat n \<noteq> []"
    and dig: "list_all is_digit (str_nat n)"
    and zero: "hd (str_nat n) = CHR ''0'' \<longrightarrow> str_nat n = ''0''"
    by (simp_all add: is_decimal_def)
  from ne obtain d ds where s: "str_nat n = d # ds"
    by (cases "str_nat n") auto
  with dig have d: "is_digit d" and ds: "list_all is_digit ds"
    by simp_all
  show ?thesis
  proof (cases "d = CHR ''0''")
    case True
    with zero s have "ds = []" by simp
    with True s d show ?thesis
      by (simp add: scan_int_part_def)
  next
    case False
    with s d digits_then_delim [OF ds assms] show ?thesis
      by (simp add: scan_int_part_def)
  qed
qed

lemma scan_frac_delim: "delim rest \<Longrightarrow> scan_frac rest = ([], rest)"
  by (cases rest) (auto simp: scan_frac_def delim_def)

lemma scan_exp_delim: "delim rest \<Longrightarrow> scan_exp rest = ([], rest)"
  by (cases rest) (auto simp: scan_exp_def delim_def)

lemma hd_str_nat_digit: "is_digit (hd (str_nat n))"
proof -
  from str_nat_is_decimal [of n] have "str_nat n \<noteq> []" "list_all is_digit (str_nat n)"
    by (simp_all add: is_decimal_def)
  then show ?thesis by (cases "str_nat n") simp_all
qed

lemma str_nat_not_minus: "\<exists>d ds. str_nat n = d # ds \<and> is_digit d \<and> d \<noteq> CHR ''-''"
proof -
  from str_nat_is_decimal [of n] have "str_nat n \<noteq> []" "list_all is_digit (str_nat n)"
    by (simp_all add: is_decimal_def)
  then show ?thesis by (cases "str_nat n") (auto simp: is_digit_def)
qed

lemma scan_number_str_int:
  assumes "delim rest"
  shows "scan_number (str_int i @ rest) = Some (JInt i, rest)"
proof (cases "i < 0")
  case True
  have n: "nat_of_digits (str_nat (nat (- i))) = nat (- i)"
    using str_nat_is_decimal [of "nat (- i)"] by (simp add: is_decimal_def)
  from True show ?thesis
    by (simp add: scan_number_def str_int_def scan_int_part_str_nat [OF assms]
        scan_frac_delim [OF assms] scan_exp_delim [OF assms] n)
next
  case False
  have n: "nat_of_digits (str_nat (nat i)) = nat i"
    using str_nat_is_decimal [of "nat i"] by (simp add: is_decimal_def)
  from str_nat_not_minus [of "nat i"] obtain d ds where
    s: "str_nat (nat i) = d # ds" and dm: "d \<noteq> CHR ''-''" by blast
  have sc: "scan_int_part (d # ds @ rest) = Some (d # ds, rest)"
    using scan_int_part_str_nat [OF assms, of "nat i"] s by simp
  from False n s dm sc show ?thesis
    by (simp add: scan_number_def str_int_def scan_frac_delim [OF assms] scan_exp_delim [OF assms])
qed

lemma skip_ws_start: "\<not> is_ws c \<Longrightarrow> skip_ws (c # cs) = c # cs"
  by (simp add: skip_ws_def)

lemma skip_ws_space: "skip_ws (CHR '' '' # cs) = skip_ws cs"
  by (simp add: skip_ws_def is_ws_def)

lemma str_int_starts:
  "\<exists>c cs. str_int i = c # cs \<and> (c = CHR ''-'' \<or> is_digit c)"
proof (cases "i < 0")
  case True
  then show ?thesis by (simp add: str_int_def)
next
  case False
  with str_nat_not_minus [of "nat i"] show ?thesis
    by (auto simp: str_int_def)
qed

lemma number_start_facts:
  "c = CHR ''-'' \<or> is_digit c \<Longrightarrow>
   \<not> is_ws c \<and> c \<noteq> CHR '']'' \<and> c \<noteq> CHR ''}'' \<and> c \<noteq> dquote \<and> c \<noteq> CHR ''{'' \<and>
   c \<noteq> CHR ''['' \<and> c \<noteq> CHR ''n'' \<and> c \<noteq> CHR ''t'' \<and> c \<noteq> CHR ''f''"
  by (auto simp: is_digit_def is_ws_def)

lemma dumps_starts:
  "json_ok v \<Longrightarrow> \<exists>c cs. dumps v = c # cs \<and> \<not> is_ws c \<and> c \<noteq> CHR '']'' \<and> c \<noteq> CHR ''}''"
proof (cases v)
  case (JInt i)
  from str_int_starts [of i] obtain c cs where "str_int i = c # cs" "c = CHR ''-'' \<or> is_digit c"
    by blast
  with JInt number_start_facts [of c] show ?thesis by simp
qed (simp_all add: is_ws_def encode_string_def)

lemma dumps_items_starts:
  "xs \<noteq> [] \<Longrightarrow> json_ok_list xs \<Longrightarrow>
   \<exists>c cs. dumps_items xs = c # cs \<and> \<not> is_ws c \<and> c \<noteq> CHR '']''"
proof (cases xs)
  case Nil
  assume "xs \<noteq> []"
  with Nil show ?thesis by simp
next
  case (Cons x xs')
  assume "json_ok_list xs"
  with Cons have "json_ok x" by simp
  from dumps_starts [OF this] obtain c cs where "dumps x = c # cs" "\<not> is_ws c" "c \<noteq> CHR '']''"
    by blast
  with Cons show ?thesis by simp
qed

lemma dumps_members_starts:
  "kvs \<noteq> [] \<Longrightarrow> \<exists>cs. dumps_members kvs = dquote # cs"
  by (cases kvs) (simp_all add: encode_string_def)

lemma update_fresh: "k \<notin> fst ` set al \<Longrightarrow> AList.update k v al = al @ [(k, v)]"
  by (induction al) auto

lemma dict_of_from:
  "distinct (map fst (acc @ kvs)) \<Longrightarrow>
   foldl (\<lambda>d kv. AList.update (fst kv) (snd kv) d) acc kvs = acc @ kvs"
proof (induction kvs arbitrary: acc)
  case Nil
  then show ?case by simp
next
  case (Cons kv kvs)
  from Cons.prems have fresh: "fst kv \<notin> fst ` set acc"
    by auto
  from Cons.prems have "distinct (map fst ((acc @ [kv]) @ kvs))"
    by simp
  from Cons.IH [OF this] fresh show ?case
    by (simp add: update_fresh)
qed

lemma dict_of_distinct: "distinct (map fst kvs) \<Longrightarrow> dict_of kvs = kvs"
  using dict_of_from [of "[]" kvs] by (simp add: dict_of_def)

lemma parse_value_int:
  assumes "delim rest"
  shows "parse_value (Suc n) (str_int i @ rest) = Inr (JInt i, rest)"
proof -
  from str_int_starts [of i] obtain c cs where s: "str_int i = c # cs"
    and c: "c = CHR ''-'' \<or> is_digit c" by blast
  note f = number_start_facts [OF c]
  have sn: "scan_number (c # cs @ rest) = Some (JInt i, rest)"
    using scan_number_str_int [OF assms, of i] s by simp
  from f show ?thesis
    by (auto simp: s sn)
qed

lemma parse_value_string:
  "parse_value (Suc n) (encode_string s @ rest) = Inr (JStr s, rest)"
  by (simp add: encode_string_def scan_string_encoded)

lemma is_ws_facts:
  "\<not> is_ws CHR '']''" "\<not> is_ws CHR ''}''" "\<not> is_ws CHR '',''" "\<not> is_ws CHR '':''"
  "\<not> is_ws dquote"
  by (simp_all add: is_ws_def)

lemma delim_facts: "delim (CHR '']'' # r)" "delim (CHR ''}'' # r)" "delim (CHR '','' # r)" "delim []"
  by (simp_all add: delim_def)

lemma skip_ws_dumps: "json_ok v \<Longrightarrow> skip_ws (dumps v @ tail) = dumps v @ tail"
proof -
  assume "json_ok v"
  from dumps_starts [OF this] obtain c cs where "dumps v = c # cs" "\<not> is_ws c"
    by blast
  then show ?thesis by (simp add: skip_ws_start)
qed

lemma parse_items_step:
  assumes "parse_value m (dumps x @ tail) = Inr (x, tail)"
  shows "parse_items (Suc m) (dumps x @ tail) =
     (case skip_ws tail of
        [] \<Rightarrow> Inl JSONDecodeError
      | d # r1 \<Rightarrow>
          if d = CHR '']'' then Inr ([x], r1)
          else if d = CHR '','' then
            (case parse_items m (skip_ws r1) of
               Inl e \<Rightarrow> Inl e
             | Inr (vs, r2) \<Rightarrow> Inr (x # vs, r2))
          else Inl JSONDecodeError)"
  using assms by simp

lemma parse_members_step:
  assumes "json_ok v"
    and "parse_value m (dumps v @ tail) = Inr (v, tail)"
  shows "parse_members (Suc m) (encode_string k @ '': '' @ dumps v @ tail) =
     (case skip_ws tail of
        [] \<Rightarrow> Inl JSONDecodeError
      | d # r4 \<Rightarrow>
          if d = CHR ''}'' then Inr ([(k, v)], r4)
          else if d = CHR '','' then
            (case parse_members m (skip_ws r4) of
               Inl e \<Rightarrow> Inl e
             | Inr (kvs, r5) \<Rightarrow> Inr ((k, v) # kvs, r5))
          else Inl JSONDecodeError)"
proof -
  have shape: "encode_string k @ '': '' @ dumps v @ tail =
      dquote # concat (map escape_char k) @ dquote # CHR '':'' # CHR '' '' # dumps v @ tail"
    by (simp add: encode_string_def)
  have key: "scan_string (concat (map escape_char k) @ dquote # CHR '':'' # CHR '' '' # dumps v @ tail) =
      Inr (k, CHR '':'' # CHR '' '' # dumps v @ tail)"
    by (rule scan_string_encoded)
  have ws: "skip_ws (CHR '' '' # dumps v @ tail) = dumps v @ tail"
    by (simp add: skip_ws_space skip_ws_dumps [OF assms(1)])
  show ?thesis
    unfolding shape
    by (simp add: key skip_ws_start is_ws_facts ws assms(2))
qed

lemma roundtrip_all:
  "\<forall>n rest. json_ok v \<longrightarrow> weight v \<le> n \<longrightarrow> delim rest \<longrightarrow>
     parse_value n (dumps v @ rest) = Inr (v, rest)"
  "\<forall>n rest. xs \<noteq> [] \<longrightarrow> json_ok_list xs \<longrightarrow> weight_list xs \<le> n \<longrightarrow>
     parse_items n (dumps_items xs @ CHR '']'' # rest) = Inr (xs, rest)"
  "\<forall>n rest. kvs \<noteq> [] \<longrightarrow> json_ok_members kvs \<longrightarrow> weight_members kvs \<le> n \<longrightarrow>
     parse_members n (dumps_members kvs @ CHR ''}'' # rest) = Inr (kvs, rest)"
proof (induction v and xs and kvs rule: dumps_dumps_items_dumps_members.induct)
  case 1
  show ?case
  proof (intro allI impI)
    fix n rest assume "weight JNull \<le> n"
    then obtain m where "n = Suc m" by (cases n) simp_all
    then show "parse_value n (dumps JNull @ rest) = Inr (JNull, rest)" by simp
  qed
next
  case (2 b)
  show ?case
  proof (intro allI impI)
    fix n rest assume "weight (JBool b) \<le> n"
    then obtain m where "n = Suc m" by (cases n) simp_all
    then show "parse_value n (dumps (JBool b) @ rest) = Inr (JBool b, rest)" by simp
  qed
next
  case (3 i)
  show ?case
  proof (intro allI impI)
    fix n rest assume "weight (JInt i) \<le> n" and d: "delim rest"
    then obtain m where "n = Suc m" by (cases n) simp_all
    then show "parse_value n (dumps (JInt i) @ rest) = Inr (JInt i, rest)"
      by (simp only: dumps.simps parse_value_int [OF d])
  qed
next
  case (4 r)
  show ?case by simp
next
  case (5 s)
  show ?case
  proof (intro allI impI)
    fix n rest assume "weight (JStr s) \<le> n"
    then obtain m where "n = Suc m" by (cases n) simp_all
    then show "parse_value n (dumps (JStr s) @ rest) = Inr (JStr s, rest)"
      by (simp only: dumps.simps parse_value_string)
  qed
next
  case (6 xs)
  show ?case
  proof (intro allI impI)
    fix n rest
    assume ok: "json_ok (JArr xs)" and w: "weight (JArr xs) \<le> n" and d: "delim rest"
    from w obtain m where n: "n = Suc m" and wm: "weight_list xs \<le> m"
      by (cases n) simp_all
    show "parse_value n (dumps (JArr xs) @ rest) = Inr (JArr xs, rest)"
    proof (cases "xs = []")
      case True
      with n show ?thesis
        by (simp add: skip_ws_start is_ws_facts)
    next
      case False
      from ok have okl: "json_ok_list xs" by simp
      from dumps_items_starts [OF False okl] obtain c cs where
        s: "dumps_items xs = c # cs" and c: "\<not> is_ws c" "c \<noteq> CHR '']''" by blast
      from 6 False okl wm have "parse_items m (dumps_items xs @ CHR '']'' # rest) = Inr (xs, rest)"
        by blast
      with s have "parse_items m (c # cs @ CHR '']'' # rest) = Inr (xs, rest)"
        by simp
      with False n s c show ?thesis
        by (simp add: skip_ws_start)
    qed
  qed
next
  case (7 kvs)
  show ?case
  proof (intro allI impI)
    fix n rest
    assume ok: "json_ok (JObj kvs)" and w: "weight (JObj kvs) \<le> n" and d: "delim rest"
    from w obtain m where n: "n = Suc m" and wm: "weight_members kvs \<le> m"
      by (cases n) simp_all
    show "parse_value n (dumps (JObj kvs) @ rest) = Inr (JObj kvs, rest)"
    proof (cases "kvs = []")
      case True
      with n show ?thesis
        by (simp add: skip_ws_start is_ws_facts)
    next
      case False
      from ok have okm: "json_ok_members kvs" and dist: "distinct (map fst kvs)" by simp_all
      from dumps_members_starts [OF False] obtain cs where s: "dumps_members kvs = dquote # cs"
        by blast
      from 7 False okm wm have "parse_members m (dumps_members kvs @ CHR ''}'' # rest) = Inr (kvs, rest)"
        by blast
      with s have "parse_members m (dquote # cs @ CHR ''}'' # rest) = Inr (kvs, rest)"
        by simp
      with False n s show ?thesis
        by (simp add: skip_ws_start is_ws_facts dict_of_distinct [OF dist])
    qed
  qed
next
  case 8
  show ?case by simp
next
  case (9 x xs)
  show ?case
  proof (intro allI impI)
    fix n rest
    assume ok: "json_ok_list (x # xs)" and w: "weight_list (x # xs) \<le> n"
    from ok have okx: "json_ok x" and okl: "json_ok_list xs" by simp_all
    from w obtain m where n: "n = Suc m" and wx: "weight x \<le> m" and wl: "weight_list xs \<le> m"
      by (cases n) simp_all
    show "parse_items n (dumps_items (x # xs) @ CHR '']'' # rest) = Inr (x # xs, rest)"
    proof (cases "xs = []")
      case True
      from 9(1) True okx wx have "parse_value m (dumps x @ CHR '']'' # rest) = Inr (x, CHR '']'' # rest)"
        by (simp add: delim_facts)
      from parse_items_step [OF this] True n show ?thesis
        by (simp add: skip_ws_start is_ws_facts)
    next
      case False
      let ?tail = "CHR '','' # CHR '' '' # dumps_items xs @ CHR '']'' # rest"
      from 9(2) False okx wx have "parse_value m (dumps x @ ?tail) = Inr (x, ?tail)"
        by (simp add: delim_facts)
      note step = parse_items_step [OF this]
      from dumps_items_starts [OF False okl] obtain c cs where
        s: "dumps_items xs = c # cs" and c: "\<not> is_ws c" by blast
      then have ws: "skip_ws (CHR '' '' # dumps_items xs @ CHR '']'' # rest) = dumps_items xs @ CHR '']'' # rest"
        by (simp add: skip_ws_space skip_ws_start)
      from 9(3) False okl wl have rec: "parse_items m (dumps_items xs @ CHR '']'' # rest) = Inr (xs, rest)"
        by blast
      have "dumps_items (x # xs) @ CHR '']'' # rest = dumps x @ ?tail"
        using False by simp
      with step n ws rec show ?thesis
        by (simp add: skip_ws_start is_ws_facts)
    qed
  qed
next
  case 10
  show ?case by simp
next
  case (11 kv kvs)
  show ?case
  proof (intro allI impI)
    fix n rest
    assume ok: "json_ok_members (kv # kvs)" and w: "weight_members (kv # kvs) \<le> n"
    from ok have okv: "json_ok (snd kv)" and okm: "json_ok_members kvs" by simp_all
    from w obtain m where n: "n = Suc m" and wv: "weight (snd kv) \<le> m"
      and wm: "weight_members kvs \<le> m"
      by (cases n) simp_all
    show "parse_members n (dumps_members (kv # kvs) @ CHR ''}'' # rest) = Inr (kv # kvs, rest)"
    proof (cases "kvs = []")
      case True
      from 11(1) True okv wv
      have "parse_value m (dumps (snd kv) @ CHR ''}'' # rest) = Inr (snd kv, CHR ''}'' # rest)"
        by (simp add: delim_facts)
      from parse_members_step [OF okv this, of "fst kv"] True n show ?thesis
        by (simp add: skip_ws_start is_ws_facts)
    next
      case False
      let ?tail = "CHR '','' # CHR '' '' # dumps_members kvs @ CHR ''}'' # rest"
      from 11(2) False okv wv have "parse_value m (dumps (snd kv) @ ?tail) = Inr (snd kv, ?tail)"
        by (simp add: delim_facts)
      note step = parse_members_step [OF okv this, of "fst kv"]
      from dumps_members_starts [OF False] obtain cs where s: "dumps_members kvs = dquote # cs"
        by blast
      then have ws: "skip_ws (CHR '' '' # dumps_members kvs @ CHR ''}'' # rest) =
          dumps_members kvs @ CHR ''}'' # rest"
        by (simp add: skip_ws_space skip_ws_start is_ws_facts)
      from 11(3) False okm wm
      have rec: "parse_members m (dumps_members kvs @ CHR ''}'' # rest) = Inr (kvs, rest)"
        by blast
      have "dumps_members (kv # kvs) @ CHR ''}'' # rest =
          encode_string (fst kv) @ '': '' @ dumps (snd kv) @ ?tail"
        using False by simp
      with step n ws rec show ?thesis
        by (simp add: skip_ws_start is_ws_facts)
    qed
  qed
qed

lemma dumps_length:
  "json_ok v \<longrightarrow> weight v \<le> length (dumps v)"
  "json_ok_list xs \<longrightarrow> weight_list xs \<le> Suc (length (dumps_items xs))"
  "weight_members kvs \<le> Suc (length (dumps_members kvs)) \<or> \<not> json_ok_members kvs"
proof (induction v and xs and kvs rule: dumps_dumps_items_dumps_members.induct)
  case (3 i)
  from str_int_starts [of i] show ?case by auto
next
  case (5 s)
  show ?case by (simp add: encode_string_def)
next
  case (6 xs)
  then show ?case by (cases "xs = []") auto
next
  case (7 kvs)
  then show ?case by (cases "kvs = []") auto
next
  case (9 x xs)
  then show ?case by (cases "xs = []") auto
next
  case (11 kv kvs)
  then show ?case by (cases "kvs = []") (auto simp: encode_string_def)
qed simp_all

text \<open>\<open>json.loads(json.dumps(x)) == x\<close> for every value without floats.\<close>

lemma loads_dumps: "json_ok v \<Longrightarrow> json_loads (dumps v) = Inr v"
proof -
  assume ok: "json_ok v"
  from dumps_length(1) [of v] ok have w: "weight v \<le> Suc (length (dumps v))"
    by simp
  have "parse_value (Suc (length (dumps v))) (dumps v @ []) = Inr (v, [])"
    using roundtrip_all(1) [rule_format, of v "Suc (length (dumps v))" "[]"] ok w delim_facts(4)
    by blast
  then have pv: "parse_value (Suc (length (dumps v))) (dumps v) = Inr (v, [])"
    by (simp only: append_Nil2)
  have sk: "skip_ws (dumps v) = dumps v"
    using skip_ws_dumps [OF ok, of "[]"] by (simp only: append_Nil2)
  show ?thesis
    by (simp only: json_loads_def sk pv) (simp add: skip_ws_def)
qed

lemma document_ok:
  "json_ok (patient_records w) \<Longrightarrow> json_ok (generated_materials w) \<Longrightarrow> json_ok (chat_history w) \<Longrightarrow>
   json_ok (document w)"
  by (simp add: document_def)

text \<open>
  Claim C3. For every store whose three collections hold no float: after \<open>save_data\<close>,
  \<open>load_data\<close> in the same session gives back the session unchanged, and \<open>load_data\<close> in
  any other session that reads the written file sets its patients, materials and chat
  histories to exactly those that were saved, so with every order preserved.
\<close>

theorem save_load_roundtrip:
  assumes "json_ok (patient_records w)" and "json_ok (generated_materials w)"
    and "json_ok (chat_history w)"
  shows "load_data (save_data w) = (Inr (), save_data w) \<and>
         load_data (w'\<lparr>data_file := data_file (save_data w)\<rparr>) =
           (Inr (), w'\<lparr>data_file := data_file (save_data w),
                         patient_records := patient_records w,
                         generated_materials := generated_materials w,
                         chat_history := chat_history w\<rparr>)"
proof -
  have p: "json_loads (dumps (document w)) = Inr (document w)"
    using assms by (simp add: loads_dumps document_ok)
  have d: "document w = JObj [(''patients'', patient_records w),
      (''materials'', generated_materials w), (''chat_history'', chat_history w)]"
    by (simp add: document_def)
  show ?thesis
    by (simp add: load_data_def save_data_def p) (simp add: d dict_get_def)
qed

theorem save_load_roundtrip_witness:
  "load_data (save_data world1) = (Inr (), save_data world1) \<and>
   patient_records (snd (load_data (fresh_world (data_file (save_data world1))))) = JArr [patient1] \<and>
   generated_materials (snd (load_data (fresh_world (data_file (save_data world1))))) = JArr [material1] \<and>
   chat_history (snd (load_data (fresh_world (data_file (save_data world1))))) = chat_history world1"
proof -
  have ok: "json_ok (patient_records world1)" "json_ok (generated_materials world1)"
    "json_ok (chat_history world1)"
    by (simp_all add: world1_def patient1_def patient_dict_def material1_def material_dict_def
        chat_message_def)
  have f: "fresh_world (data_file (save_data world1)) =
      (fresh_world None)\<lparr>data_file := data_file (save_data world1)\<rparr>"
    by (simp add: fresh_world_def)
  from save_load_roundtrip [OF ok, of "fresh_world None"] show ?thesis
    by (simp add: f) (simp add: world1_def)
qed

text \<open>
  Claim C4. The data file \<open>save_data\<close> writes does not depend on the assessment map, and
  for a store without floats it is one JSON document: an object with exactly the keys
  \<open>patients\<close>, \<open>materials\<close> and \<open>chat_history\<close>, in that order, holding the three
  collections.
\<close>

theorem save_data_document:
  "data_file (save_data (w\<lparr>patient_assessments := a\<rparr>)) = data_file (save_data w) \<and>
   data_file (save_data w) = Some (dumps (document w)) \<and>
   (json_ok (patient_records w) \<and> json_ok (generated_materials w) \<and> json_ok (chat_history w) \<longrightarrow>
      json_loads (dumps (document w)) =
        Inr (JObj [(''patients'', patient_records w), (''materials'', generated_materials w),
                   (''chat_history'', chat_history w)]))"
proof (intro conjI impI)
  show "data_file (save_data (w\<lparr>patient_assessments := a\<rparr>)) = data_file (save_data w)"
    by (simp add: save_data_def document_def)
  show "data_file (save_data w) = Some (dumps (document w))"
    by (simp add: save_data_def)
  assume "json_ok (patient_records w) \<and> json_ok (generated_materials w) \<and> json_ok (chat_history w)"
  then have "json_loads (dumps (document w)) = Inr (document w)"
    by (simp add: loads_dumps document_ok)
  then show "json_loads (dumps (document w)) =
        Inr (JObj [(''patients'', patient_records w), (''materials'', generated_materials w),
                   (''chat_history'', chat_history w)])"
    by (simp add: document_def)
qed

theorem save_data_document_witness:
  "data_file (save_data (world1\<lparr>patient_assessments := JObj [(''p'', assessment_entry assessment11)]\<rparr>)) =
     data_file (save_data world1) \<and>
   data_file (save_data world1) = Some (dumps (document world1)) \<and>
   json_loads (dumps (document world1)) =
     Inr (JObj [(''patients'', JArr [patient1]), (''materials'', JArr [material1]),
                (''chat_history'', chat_history world1)])"
proof -
  have ok: "json_ok (patient_records world1) \<and> json_ok (generated_materials world1) \<and>
    json_ok (chat_history world1)"
    by (simp add: world1_def patient1_def patient_dict_def material1_def material_dict_def
        chat_message_def)
  from save_data_document [where w = world1 and a = "JObj [(''p'', assessment_entry assessment11)]"] ok
  have "data_file (save_data (world1\<lparr>patient_assessments := JObj [(''p'', assessment_entry assessment11)]\<rparr>)) =
     data_file (save_data world1)"
    and "data_file (save_data world1) = Some (dumps (document world1))"
    and "json_loads (dumps (document world1)) =
        Inr (JObj [(''patients'', patient_records world1), (''materials'', generated_materials world1),
                   (''chat_history'', chat_history world1)])"
    by blast+
  then show ?thesis
    by (simp add: world1_def)
qed

end
